theory Spec2Isabelle
  imports Main
begin

section \<open>thepiratedb: a shallow embedding of \<^verbatim>\<open>src/thepiratedb.go\<close>\<close>

text \<open>
  The program crawls the pages \<^verbatim>\<open>/torrent/1\<close>, \<^verbatim>\<open>/torrent/2\<close>, ... of a site, extracts ten
  fields from each page with regular expressions and inserts one row per page into a
  SQLite table. This theory models
  \<^item> the extractor \<^verbatim>\<open>ParseTorrent\<close> with its ten patterns and \<^verbatim>\<open>stripTags\<close>,
  \<^item> the body of the worker \<^verbatim>\<open>runner\<close> (the goto-based retry loop, the not-found check,
    the call of the extractor, the send to the record channel),
  \<^item> the \<^verbatim>\<open>writer\<close>, and
  \<^item> the dispatching loop of \<^verbatim>\<open>main\<close>.

  Conventions.
  \<^item> A Go \<^verbatim>\<open>[]byte\<close> or \<^verbatim>\<open>string\<close> is a \<^typ>\<open>string\<close> (a list of 8-bit characters).
  \<^item> A Go \<^verbatim>\<open>int\<close>, \<^verbatim>\<open>int64\<close> or \<^verbatim>\<open>time.Duration\<close> is an \<^typ>\<open>int\<close> kept in the range
    \<open>-2^63 .. 2^63 - 1\<close>: every addition and multiplication of the source is followed by
    \<open>wrap64\<close>. (\<^verbatim>\<open>int\<close> is taken to be 64 bits wide, as on every 64-bit platform.)
  \<^item> What the outside world does is an input of the model: the results of the successive
    HTTP requests are a list of \<open>response\<close>s, the result of an insert is decided by a
    function \<open>Exec\<close>, and the two library functions whose full behaviour is not
    modelled (\<^verbatim>\<open>html.UnescapeString\<close>, \<^verbatim>\<open>time.Parse\<close>) are fields of a record \<open>stdlib\<close>
    that every function takes as its first argument. Theorems hold for every such record.
  \<^item> What the program does to the outside world is a list of \<open>event\<close>s.
\<close>

subsection \<open>Machine integers\<close>

definition wrap64 :: "int \<Rightarrow> int" where
  "wrap64 x = (x + 2 ^ 63) mod 2 ^ 64 - 2 ^ 63"

definition MaxInt64 :: int where
  "MaxInt64 = 9223372036854775807"

definition MinInt64 :: int where
  "MinInt64 = - 9223372036854775808"

text \<open>Go's \<^verbatim>\<open>%\<close> truncates towards zero: the result has the sign of the dividend.\<close>

definition go_rem :: "int \<Rightarrow> int \<Rightarrow> int" where
  "go_rem a b = sgn a * (\<bar>a\<bar> mod \<bar>b\<bar>)"

subsection \<open>Package \<^verbatim>\<open>bytes\<close>\<close>

fun bytes_HasPrefix :: "string \<Rightarrow> string \<Rightarrow> bool" where
  "bytes_HasPrefix s [] = True"
| "bytes_HasPrefix [] (p # ps) = False"
| "bytes_HasPrefix (c # cs) (p # ps) = (c = p \<and> bytes_HasPrefix cs ps)"

fun index_from :: "string \<Rightarrow> string \<Rightarrow> int \<Rightarrow> int" where
  "index_from [] sep n = (if sep = [] then n else - 1)"
| "index_from (c # cs) sep n =
     (if bytes_HasPrefix (c # cs) sep then n else index_from cs sep (n + 1))"

text \<open>\<^verbatim>\<open>bytes.Index(s, sep)\<close>: the index of the first instance of \<open>sep\<close> in \<open>s\<close>, or \<open>-1\<close>.\<close>

definition bytes_Index :: "string \<Rightarrow> string \<Rightarrow> int" where
  "bytes_Index s sep = index_from s sep 0"

subsection \<open>Package \<^verbatim>\<open>strconv\<close>\<close>

datatype NumError = ErrSyntax | ErrRange

definition digit_val :: "char \<Rightarrow> int option" where
  "digit_val c = (if c \<in> set ''0123456789'' then Some (of_char c - 48) else None)"

text \<open>
  The loop of \<^verbatim>\<open>strconv.ParseUint(s, 10, 64)\<close>: a byte that is no digit is a syntax error
  with value 0; a value above \<open>2^64 - 1\<close> is a range error with value \<open>2^64 - 1\<close>, returned
  at once.
\<close>

fun parse_uint_loop :: "string \<Rightarrow> int \<Rightarrow> int \<times> NumError option" where
  "parse_uint_loop [] n = (n, None)"
| "parse_uint_loop (c # cs) n =
     (case digit_val c of
        None \<Rightarrow> (0, Some ErrSyntax)
      | Some d \<Rightarrow>
          if n \<ge> (2 ^ 64 - 1) div 10 + 1 then (2 ^ 64 - 1, Some ErrRange)
          else if n * 10 + d > 2 ^ 64 - 1 then (2 ^ 64 - 1, Some ErrRange)
          else parse_uint_loop cs (n * 10 + d))"

definition ParseUint :: "string \<Rightarrow> int \<times> NumError option" where
  "ParseUint s = (if s = [] then (0, Some ErrSyntax) else parse_uint_loop s 0)"

text \<open>
  \<^verbatim>\<open>strconv.ParseInt(s, 10, 64)\<close>: the value and the error. On a range error the value is
  the nearest representable one, and the caller gets it together with the error.
\<close>

definition ParseInt :: "string \<Rightarrow> int \<times> NumError option" where
  "ParseInt s =
     (if s = [] then (0, Some ErrSyntax)
      else
        let neg = (hd s = CHR ''-'');
            s' = (if hd s = CHR ''+'' \<or> hd s = CHR ''-'' then tl s else s)
        in case ParseUint s' of
             (un, Some ErrSyntax) \<Rightarrow> (0, Some ErrSyntax)
           | (un, _) \<Rightarrow>
               if \<not> neg \<and> un \<ge> 2 ^ 63 then (2 ^ 63 - 1, Some ErrRange)
               else if neg \<and> un > 2 ^ 63 then (- (2 ^ 63), Some ErrRange)
               else (if neg then - un else un, None))"

text \<open>
  \<^verbatim>\<open>strconv.Atoi(s)\<close> is \<^verbatim>\<open>ParseInt(s, 10, 0)\<close> converted to \<^verbatim>\<open>int\<close>; with a 64-bit \<^verbatim>\<open>int\<close> it
  has the value and the error of \<^verbatim>\<open>ParseInt(s, 10, 64)\<close>.
\<close>

definition Atoi :: "string \<Rightarrow> int \<times> NumError option" where
  "Atoi s = ParseInt s"

subsection \<open>Package \<^verbatim>\<open>regexp\<close>, for the patterns of this program\<close>

text \<open>
  The eleven patterns of the program are sequences of literals and of character classes
  under \<^verbatim>\<open>*\<close>, \<^verbatim>\<open>+\<close>, \<^verbatim>\<open>*?\<close> or \<^verbatim>\<open>+?\<close>, with at most one capturing group. A compiled
  pattern is a list of \<open>re_item\<close>s: \<open>Rep c n g\<close> is the class \<open>c\<close> repeated at least \<open>n\<close>
  times, greedily if \<open>g\<close> and lazily otherwise; \<open>GOpen\<close> and \<open>GClose\<close> are the parentheses
  of the group.

  Go's \<^verbatim>\<open>regexp\<close> returns the leftmost match and, among the matches that start there, the
  one a backtracking search finds first; \<open>rmatch\<close> is that backtracking search. It works
  on bytes. Go decodes UTF-8 (a byte that is no valid encoding counts as one character),
  but in these patterns a class that has a byte above \<open>0x7F\<close> has all of them
  (\<^verbatim>\<open>.\<close>, \<^verbatim>\<open>[^>]\<close>), and every literal and every other class is ASCII, so that no match
  can start or end inside a character: the two readings find the same matches.
\<close>

datatype cclass =
    AnyChar        \<comment> \<open>\<^verbatim>\<open>.\<close> under the flag \<^verbatim>\<open>(?s)\<close>\<close>
  | NoNewline      \<comment> \<open>\<^verbatim>\<open>.\<close> without the flag\<close>
  | Space          \<comment> \<open>\<^verbatim>\<open>\s\<close>, that is \<^verbatim>\<open>[\t\n\f\r ]\<close>\<close>
  | Digit          \<comment> \<open>\<^verbatim>\<open>\d\<close>, that is \<^verbatim>\<open>[0-9]\<close>\<close>
  | NotChar char   \<comment> \<open>\<^verbatim>\<open>[^x]\<close>\<close>
  | OneOf string   \<comment> \<open>\<^verbatim>\<open>[xy]\<close>\<close>

fun in_class :: "cclass \<Rightarrow> char \<Rightarrow> bool" where
  "in_class AnyChar c = True"
| "in_class NoNewline c = (c \<noteq> CHR 0x0A)"
| "in_class Space c =
     (c = CHR 0x09 \<or> c = CHR 0x0A \<or> c = CHR 0x0C \<or> c = CHR 0x0D \<or> c = CHR '' '')"
| "in_class Digit c = (c \<in> set ''0123456789'')"
| "in_class (NotChar x) c = (c \<noteq> x)"
| "in_class (OneOf xs) c = (c \<in> set xs)"

datatype re_item = Lit string | One cclass | Rep cclass nat bool | GOpen | GClose

type_synonym regexp = "re_item list"

fun strip_prefix :: "string \<Rightarrow> string \<Rightarrow> string option" where
  "strip_prefix [] s = Some s"
| "strip_prefix (p # ps) [] = None"
| "strip_prefix (p # ps) (c # cs) = (if p = c then strip_prefix ps cs else None)"

text \<open>
  A successful match is the text matched, the text of the group, and the rest of the
  input. \<open>consumed rec xs r\<close> puts \<open>xs\<close> in front of the match \<open>r\<close> of the rest of the
  pattern, and in front of the group too when the group is open (\<open>rec\<close>).
\<close>

fun consumed ::
  "bool \<Rightarrow> string \<Rightarrow> (string \<times> string \<times> string) option \<Rightarrow> (string \<times> string \<times> string) option"
where
  "consumed rec xs None = None"
| "consumed rec xs (Some (whole, grp, rest)) =
     Some (xs @ whole, if rec then xs @ grp else grp, rest)"

fun rmatch :: "regexp \<Rightarrow> bool \<Rightarrow> string \<Rightarrow> (string \<times> string \<times> string) option" where
  "rmatch [] rec s = Some ([], [], s)"
| "rmatch (GOpen # is) rec s = rmatch is True s"
| "rmatch (GClose # is) rec s = rmatch is False s"
| "rmatch (Lit l # is) rec s =
     (case strip_prefix l s of
        None \<Rightarrow> None
      | Some s' \<Rightarrow> consumed rec l (rmatch is rec s'))"
| "rmatch (One c # is) rec [] = None"
| "rmatch (One c # is) rec (x # xs) =
     (if in_class c x then consumed rec [x] (rmatch is rec xs) else None)"
| "rmatch (Rep c mn g # is) rec [] = (if mn = 0 then rmatch is rec [] else None)"
| "rmatch (Rep c mn g # is) rec (x # xs) =
     (if g then
        (case (if in_class c x
               then consumed rec [x] (rmatch (Rep c (mn - 1) g # is) rec xs) else None) of
           Some r \<Rightarrow> Some r
         | None \<Rightarrow> if mn = 0 then rmatch is rec (x # xs) else None)
      else
        (case (if mn = 0 then rmatch is rec (x # xs) else None) of
           Some r \<Rightarrow> Some r
         | None \<Rightarrow>
             if in_class c x
             then consumed rec [x] (rmatch (Rep c (mn - 1) g # is) rec xs) else None))"

text \<open>The leftmost match: the first position of the input where \<open>rmatch\<close> succeeds.\<close>

fun find_leftmost :: "regexp \<Rightarrow> string \<Rightarrow> (string \<times> string \<times> string \<times> string) option" where
  "find_leftmost re [] =
     (case rmatch re False [] of
        None \<Rightarrow> None
      | Some (whole, grp, rest) \<Rightarrow> Some ([], whole, grp, rest))"
| "find_leftmost re (x # xs) =
     (case rmatch re False (x # xs) of
        Some (whole, grp, rest) \<Rightarrow> Some ([], whole, grp, rest)
      | None \<Rightarrow>
          (case find_leftmost re xs of
             None \<Rightarrow> None
           | Some (before, whole, grp, rest) \<Rightarrow> Some (x # before, whole, grp, rest)))"

text \<open>
  \<^verbatim>\<open>re.FindSubmatch(b)\<close> for a pattern with one group: \<open>None\<close> is Go's \<^verbatim>\<open>nil\<close>, and in
  \<open>Some m\<close> the list \<open>m\<close> has the whole match at index 0 and the group at index 1.
\<close>

definition FindSubmatch :: "regexp \<Rightarrow> string \<Rightarrow> string list option" where
  "FindSubmatch re b =
     (case find_leftmost re b of
        None \<Rightarrow> None
      | Some (before, whole, grp, rest) \<Rightarrow> Some [whole, grp])"

text \<open>
  \<^verbatim>\<open>re.ReplaceAllLiteralString(src, repl)\<close> for a pattern that matches no empty string
  (every match of \<^verbatim>\<open>stripTagsRegexp\<close> has at least three bytes): the matches are replaced
  from left to right, each search starting where the previous match ended.
\<close>

fun ReplaceAllLiteralString :: "regexp \<Rightarrow> string \<Rightarrow> string \<Rightarrow> string" where
  "ReplaceAllLiteralString re [] repl = []"
| "ReplaceAllLiteralString re (x # xs) repl =
     (case rmatch re False (x # xs) of
        None \<Rightarrow> x # ReplaceAllLiteralString re xs repl
      | Some (whole, grp, rest) \<Rightarrow>
          if length rest < length (x # xs)
          then repl @ ReplaceAllLiteralString re rest repl
          else x # ReplaceAllLiteralString re xs repl)"

subsection \<open>The record type and the library functions taken as parameters\<close>

text \<open>
  \<^verbatim>\<open>type Torrent struct\<close>. The type of \<^verbatim>\<open>time.Time\<close> values is the parameter \<open>'tm\<close>. The
  field \<^verbatim>\<open>Id\<close> is \<open>Id'\<close> here, \<open>Id\<close> being the identity relation of HOL.
\<close>

record 'tm Torrent =
  Id' :: int
  Title :: string
  Category :: string
  Size :: int
  Seeders :: int
  Leechers :: int
  Uploaded :: 'tm
  Uploader :: string
  Files_num :: int
  Description :: string
  Magnet :: string

text \<open>
  The library functions that are parameters of the model:
  \<^item> \<open>html_UnescapeString\<close> is \<^verbatim>\<open>html.UnescapeString\<close>;
  \<^item> \<open>time_Parse layout value\<close> is \<^verbatim>\<open>time.Parse(layout, value)\<close>: the time returned and
    whether the error returned is non-nil;
  \<^item> \<open>time_zero\<close> is the zero value \<^verbatim>\<open>time.Time{}\<close>, the value of the field \<^verbatim>\<open>Uploaded\<close> in
    \<^verbatim>\<open>new(Torrent)\<close>.
\<close>

record 'tm stdlib =
  html_UnescapeString :: "string \<Rightarrow> string"
  time_Parse :: "string \<Rightarrow> string \<Rightarrow> 'tm \<times> bool"
  time_zero :: 'tm

subsection \<open>The package-level values\<close>

definition notFoundText :: string where
  \<open>notFoundText =
     ''<title>Not Found | The Pirate Bay - The world's most resilient BitTorrent site</title>''\<close>

definition doctype :: string where
  \<open>doctype = ''<!DOCTYPE html PUBLIC''\<close>

text \<open>
  \<^verbatim>\<open>LOG_INTERVAL\<close> is 10000, and \<^verbatim>\<open>main\<close> sets it to 10 under \<^verbatim>\<open>DEBUG\<close> before it starts
  the workers.
\<close>

definition LOG_INTERVAL :: "bool \<Rightarrow> int" where
  "LOG_INTERVAL DEBUG = (if DEBUG then 10 else 10000)"

text \<open>
  The fields of \<^verbatim>\<open>regexes\<close>, in the order of the source; each comment is the pattern
  given to \<^verbatim>\<open>regexp.MustCompile\<close>.
\<close>

definition regexes_title :: regexp where
  \<comment> \<open>\<^verbatim>\<open><div id="title">\s*(.+?)\s*</div>\<close>\<close>
  \<open>regexes_title =
     [Lit ''<div id="title">'', Rep Space 0 True,
      GOpen, Rep NoNewline 1 False, GClose,
      Rep Space 0 True, Lit ''</div>'']\<close>

definition regexes_category :: regexp where
  \<comment> \<open>\<^verbatim>\<open><dt>Type:</dt>\s*<dd><a[^>]*>(.+?)</a></dd>\<close>\<close>
  \<open>regexes_category =
     [Lit ''<dt>Type:</dt>'', Rep Space 0 True, Lit ''<dd><a'',
      Rep (NotChar (CHR ''>'')) 0 True, Lit ''>'',
      GOpen, Rep NoNewline 1 False, GClose,
      Lit ''</a></dd>'']\<close>

definition regexes_size :: regexp where
  \<comment> \<open>\<^verbatim>\<open>(?s)<dt>Size:</dt>.*?\((\d+)&nbsp;Bytes\)</dd>\<close>\<close>
  \<open>regexes_size =
     [Lit ''<dt>Size:</dt>'', Rep AnyChar 0 False, Lit ''('',
      GOpen, Rep Digit 1 True, GClose,
      Lit ''&nbsp;Bytes)</dd>'']\<close>

definition regexes_seeders :: regexp where
  \<comment> \<open>\<^verbatim>\<open>(?s)<dt>Seeders:</dt>.*?(\d+)</dd>\<close>\<close>
  \<open>regexes_seeders =
     [Lit ''<dt>Seeders:</dt>'', Rep AnyChar 0 False,
      GOpen, Rep Digit 1 True, GClose,
      Lit ''</dd>'']\<close>

definition regexes_leechers :: regexp where
  \<comment> \<open>\<^verbatim>\<open>(?s)<dt>Leechers:</dt>.*?(\d+)</dd>\<close>\<close>
  \<open>regexes_leechers =
     [Lit ''<dt>Leechers:</dt>'', Rep AnyChar 0 False,
      GOpen, Rep Digit 1 True, GClose,
      Lit ''</dd>'']\<close>

definition regexes_uploaded :: regexp where
  \<comment> \<open>\<^verbatim>\<open><dt>Uploaded:</dt>\s*<dd>(.+?)</dd>\<close>\<close>
  \<open>regexes_uploaded =
     [Lit ''<dt>Uploaded:</dt>'', Rep Space 0 True, Lit ''<dd>'',
      GOpen, Rep NoNewline 1 False, GClose,
      Lit ''</dd>'']\<close>

definition regexes_uploader :: regexp where
  \<comment> \<open>\<^verbatim>\<open><dt>By:</dt>\s*<dd>\s*<[ai][^>]*>(.+?)</[ai]>\<close>\<close>
  \<open>regexes_uploader =
     [Lit ''<dt>By:</dt>'', Rep Space 0 True, Lit ''<dd>'', Rep Space 0 True,
      Lit ''<'', One (OneOf ''ai''), Rep (NotChar (CHR ''>'')) 0 True, Lit ''>'',
      GOpen, Rep NoNewline 1 False, GClose,
      Lit ''</'', One (OneOf ''ai''), Lit ''>'']\<close>

definition regexes_files_num :: regexp where
  \<comment> \<open>\<^verbatim>\<open>(?s)<dt>Files:</dt>\s*<dd>.+?(\d+)</a></dd>\<close>\<close>
  \<open>regexes_files_num =
     [Lit ''<dt>Files:</dt>'', Rep Space 0 True, Lit ''<dd>'', Rep AnyChar 1 False,
      GOpen, Rep Digit 1 True, GClose,
      Lit ''</a></dd>'']\<close>

definition regexes_description :: regexp where
  \<comment> \<open>\<^verbatim>\<open>(?s)<div class="nfo">\s*<pre>(.+?)</pre>\<close>\<close>
  \<open>regexes_description =
     [Lit ''<div class="nfo">'', Rep Space 0 True, Lit ''<pre>'',
      GOpen, Rep AnyChar 1 False, GClose,
      Lit ''</pre>'']\<close>

definition regexes_magnet :: regexp where
  \<comment> \<open>\<^verbatim>\<open>href="(magnet:.+?)" title="Get this torrent"\<close>\<close>
  \<open>regexes_magnet =
     [Lit ''href="'',
      GOpen, Lit ''magnet:'', Rep NoNewline 1 False, GClose,
      Lit ''" title="Get this torrent"'']\<close>

definition stripTagsRegexp :: regexp where
  \<comment> \<open>\<^verbatim>\<open>(?s)<.+?>\<close>\<close>
  \<open>stripTagsRegexp = [Lit ''<'', Rep AnyChar 1 False, Lit ''>'']\<close>

definition stripTags :: "string \<Rightarrow> string" where
  "stripTags s = ReplaceAllLiteralString stripTagsRegexp s []"

subsection \<open>\<^verbatim>\<open>ParseTorrent\<close>\<close>

text \<open>
  \<^verbatim>\<open>func ParseTorrent(data []byte, t *Torrent) error\<close> writes into \<open>*t\<close> and returns an
  error: the model takes the record and returns the error (\<open>None\<close> is \<^verbatim>\<open>nil\<close>, \<open>Some s\<close>
  is \<^verbatim>\<open>errors.New(s)\<close>) with the record as the call leaves it. One definition per field, in
  the order of the source; \<open>and_then\<close> is the sequencing of two of them, the second one
  running when the first has not returned.

  An assignment \<^verbatim>\<open>t.Size, err = strconv.ParseInt(...)\<close> stores the value before the error is
  looked at.
\<close>

type_synonym 'tm step = "'tm Torrent \<Rightarrow> string option \<times> 'tm Torrent"

definition and_then :: "'tm step \<Rightarrow> 'tm step \<Rightarrow> 'tm step" where
  "and_then f g t = (case f t of (Some e, t') \<Rightarrow> (Some e, t') | (None, t') \<Rightarrow> g t')"

definition parse_title :: "'tm stdlib \<Rightarrow> string \<Rightarrow> 'tm step" where
  "parse_title L data t =
     (case FindSubmatch regexes_title data of
        None \<Rightarrow> (Some ''title not found'', t)
      | Some match \<Rightarrow> (None, t\<lparr>Title := html_UnescapeString L (match ! 1)\<rparr>))"

definition parse_category :: "'tm stdlib \<Rightarrow> string \<Rightarrow> 'tm step" where
  "parse_category L data t =
     (case FindSubmatch regexes_category data of
        None \<Rightarrow> (Some ''category not found'', t)
      | Some match \<Rightarrow> (None, t\<lparr>Category := html_UnescapeString L (match ! 1)\<rparr>))"

definition parse_size :: "string \<Rightarrow> 'tm step" where
  "parse_size data t =
     (case FindSubmatch regexes_size data of
        None \<Rightarrow> (Some ''size not found'', t)
      | Some match \<Rightarrow>
          (case ParseInt (match ! 1) of
             (v, err) \<Rightarrow>
               (if err \<noteq> None then Some ''size malformed'' else None, t\<lparr>Size := v\<rparr>)))"

definition parse_seeders :: "string \<Rightarrow> 'tm step" where
  "parse_seeders data t =
     (case FindSubmatch regexes_seeders data of
        None \<Rightarrow> (Some ''seeders not found'', t)
      | Some match \<Rightarrow>
          (case Atoi (match ! 1) of
             (v, err) \<Rightarrow>
               (if err \<noteq> None then Some ''seeders malformed'' else None, t\<lparr>Seeders := v\<rparr>)))"

definition parse_leechers :: "string \<Rightarrow> 'tm step" where
  "parse_leechers data t =
     (case FindSubmatch regexes_leechers data of
        None \<Rightarrow> (Some ''leechers not found'', t)
      | Some match \<Rightarrow>
          (case Atoi (match ! 1) of
             (v, err) \<Rightarrow>
               (if err \<noteq> None then Some ''leechers malformed'' else None, t\<lparr>Leechers := v\<rparr>)))"

definition parse_uploaded :: "'tm stdlib \<Rightarrow> string \<Rightarrow> 'tm step" where
  "parse_uploaded L data t =
     (case FindSubmatch regexes_uploaded data of
        None \<Rightarrow> (Some ''uploaded not found'', t)
      | Some match \<Rightarrow>
          (case time_Parse L ''2006-01-02 15:04:05 MST'' (match ! 1) of
             (v, err) \<Rightarrow>
               (if err then Some ''uploaded malformed'' else None, t\<lparr>Uploaded := v\<rparr>)))"

definition parse_uploader :: "string \<Rightarrow> 'tm step" where
  "parse_uploader data t =
     (case FindSubmatch regexes_uploader data of
        None \<Rightarrow> (Some ''uploader not found'', t)
      | Some match \<Rightarrow> (None, t\<lparr>Uploader := match ! 1\<rparr>))"

definition parse_files_num :: "string \<Rightarrow> 'tm step" where
  "parse_files_num data t =
     (case FindSubmatch regexes_files_num data of
        None \<Rightarrow> (Some ''files_num not found'', t)
      | Some match \<Rightarrow>
          (case Atoi (match ! 1) of
             (v, err) \<Rightarrow>
               (if err \<noteq> None then Some ''files_num malformed'' else None, t\<lparr>Files_num := v\<rparr>)))"

definition parse_description :: "'tm stdlib \<Rightarrow> string \<Rightarrow> 'tm step" where
  "parse_description L data t =
     (case FindSubmatch regexes_description data of
        None \<Rightarrow> (Some ''description not found'', t)
      | Some match \<Rightarrow>
          (None, t\<lparr>Description := html_UnescapeString L (stripTags (match ! 1))\<rparr>))"

definition parse_magnet :: "string \<Rightarrow> 'tm step" where
  "parse_magnet data t =
     (case FindSubmatch regexes_magnet data of
        None \<Rightarrow> (Some ''magnet not found'', t)
      | Some match \<Rightarrow> (None, t\<lparr>Magnet := match ! 1\<rparr>))"

definition ParseTorrent :: "'tm stdlib \<Rightarrow> string \<Rightarrow> 'tm step" where
  "ParseTorrent L data =
     and_then (parse_title L data)
    (and_then (parse_category L data)
    (and_then (parse_size data)
    (and_then (parse_seeders data)
    (and_then (parse_leechers data)
    (and_then (parse_uploaded L data)
    (and_then (parse_uploader data)
    (and_then (parse_files_num data)
    (and_then (parse_description L data)
              (parse_magnet data)))))))))"

text \<open>
  The value that each assignment of \<^verbatim>\<open>ParseTorrent\<close> stores, as a function of the input:
  \<open>submatch re data\<close> is \<^verbatim>\<open>match[1]\<close> for the pattern \<open>re\<close>, the text of the group of the
  leftmost match (and the empty text when there is no match).
\<close>

definition submatch :: "regexp \<Rightarrow> string \<Rightarrow> string" where
  "submatch re data = (case FindSubmatch re data of None \<Rightarrow> [] | Some m \<Rightarrow> m ! 1)"

definition stored_Title :: "'tm stdlib \<Rightarrow> string \<Rightarrow> string" where
  "stored_Title L data = html_UnescapeString L (submatch regexes_title data)"

definition stored_Category :: "'tm stdlib \<Rightarrow> string \<Rightarrow> string" where
  "stored_Category L data = html_UnescapeString L (submatch regexes_category data)"

definition stored_Size :: "string \<Rightarrow> int" where
  "stored_Size data = fst (ParseInt (submatch regexes_size data))"

definition stored_Seeders :: "string \<Rightarrow> int" where
  "stored_Seeders data = fst (Atoi (submatch regexes_seeders data))"

definition stored_Leechers :: "string \<Rightarrow> int" where
  "stored_Leechers data = fst (Atoi (submatch regexes_leechers data))"

definition stored_Uploaded :: "'tm stdlib \<Rightarrow> string \<Rightarrow> 'tm" where
  "stored_Uploaded L data =
     fst (time_Parse L ''2006-01-02 15:04:05 MST'' (submatch regexes_uploaded data))"

definition stored_Uploader :: "string \<Rightarrow> string" where
  "stored_Uploader data = submatch regexes_uploader data"

definition stored_Files_num :: "string \<Rightarrow> int" where
  "stored_Files_num data = fst (Atoi (submatch regexes_files_num data))"

definition stored_Description :: "'tm stdlib \<Rightarrow> string \<Rightarrow> string" where
  "stored_Description L data =
     html_UnescapeString L (stripTags (submatch regexes_description data))"

definition stored_Magnet :: "string \<Rightarrow> string" where
  "stored_Magnet data = submatch regexes_magnet data"

subsection \<open>Slices, and what a request returns\<close>

text \<open>
  A Go slice is a window on an array: \<open>arr\<close> is the array from the first byte of the
  slice on, \<open>len\<close> the length of the slice; the capacity is the length of \<open>arr\<close>. The
  slice expression \<^verbatim>\<open>s[:n]\<close> of a slice is in range when \<open>n\<close> is at most the
  \<^emph>\<open>capacity\<close> (for a slice the upper bound is the capacity, not the length) and panics
  otherwise; its bytes are the first \<open>n\<close> bytes of the array.
\<close>

record slice =
  arr :: string
  len :: nat

definition cap :: "slice \<Rightarrow> nat" where
  "cap s = length (arr s)"

definition bytes_of :: "slice \<Rightarrow> string" where
  "bytes_of s = take (len s) (arr s)"

definition slice_to :: "slice \<Rightarrow> nat \<Rightarrow> string option" where
  "slice_to s n = (if n \<le> cap s then Some (take n (arr s)) else None)"

text \<open>
  \<^verbatim>\<open>ioutil.ReadAll\<close> reads into a buffer of 512 bytes that it allocates (zeroed) and
  enlarges when it is full, and returns the part that was filled. \<open>data\<close> is what the
  reader delivered; \<open>scratch\<close> is what the buffer holds behind it (a reader may write
  there, and a buffer that was enlarged has room there). So the capacity of the result
  is at least 512 and at least the length of \<open>data\<close>.
\<close>

definition ioutil_ReadAll :: "string \<Rightarrow> string \<Rightarrow> slice" where
  "ioutil_ReadAll data scratch =
     \<lparr>arr = data @ scratch @ replicate (512 - (length data + length scratch)) (CHR 0x00),
      len = length data\<rparr>"

text \<open>
  The bytes that \<^verbatim>\<open>body[:300]\<close> denotes when \<^verbatim>\<open>body\<close> is the slice returned by
  \<^verbatim>\<open>ioutil.ReadAll\<close>: the first 300 bytes of its array.
\<close>

definition window300 :: "string \<Rightarrow> string \<Rightarrow> string" where
  "window300 data scratch = take 300 (arr (ioutil_ReadAll data scratch))"

text \<open>
  What one request does: \<^verbatim>\<open>client.Get\<close> fails (\<open>GetErr\<close>), or \<^verbatim>\<open>ioutil.ReadAll\<close> fails
  (\<open>ReadErr\<close>), or the body is read (\<open>Body data scratch\<close>).
\<close>

datatype response = GetErr | ReadErr | Body string string

subsection \<open>Events and outcomes\<close>

datatype 'tm event =
    LogProcessing int          \<comment> \<open>\<^verbatim>\<open>log.Printf("Processing torrent %d", i)\<close>\<close>
  | LogFailed int              \<comment> \<open>\<^verbatim>\<open>log.Printf("Failed torrent %d", i)\<close> or \<^verbatim>\<open>log.Fatalf\<close> of the same\<close>
  | LogRetry int int           \<comment> \<open>\<^verbatim>\<open>log.Printf("Retry torrent %d (%d)", i, tries)\<close>\<close>
  | HttpGet int                \<comment> \<open>\<^verbatim>\<open>client.Get\<close> of the URL made from \<open>i\<close>\<close>
  | Sleep int                  \<comment> \<open>\<^verbatim>\<open>time.Sleep(d)\<close>, \<open>d\<close> in nanoseconds\<close>
  | LogError int string        \<comment> \<open>\<^verbatim>\<open>log.Printf("ERROR: torrent %d: %v", i, err)\<close> or \<^verbatim>\<open>log.Fatal(i, err)\<close>\<close>
  | Send "'tm Torrent"         \<comment> \<open>\<^verbatim>\<open>dbChan <- t\<close>\<close>
  | LogGoroutineDone           \<comment> \<open>\<^verbatim>\<open>log.Printf("Goroutine done.")\<close>\<close>
  | WgDone                     \<comment> \<open>\<^verbatim>\<open>wg.Done()\<close>\<close>
  | Exec "'tm Torrent"         \<comment> \<open>\<^verbatim>\<open>insertQuery.Exec(t.Id, ..., t.Magnet)\<close>\<close>
  | LogSqlError int            \<comment> \<open>\<^verbatim>\<open>log.Printf("ERROR: torrent %d: sql %v", t.Id, err)\<close> or \<^verbatim>\<open>log.Fatal\<close>\<close>
  | Unlock                     \<comment> \<open>\<^verbatim>\<open>lock.Unlock()\<close>\<close>

text \<open>
  How a piece of code ends: it goes on (\<open>Next\<close>), the process exits in \<^verbatim>\<open>log.Fatal\<close>
  (\<open>Exited\<close>), or it panics (\<open>Panicked\<close>).
\<close>

datatype outcome = Next | Exited | Panicked

subsection \<open>\<^verbatim>\<open>runner\<close>\<close>

definition Second :: int where
  "Second = 1000000000"

definition new_Torrent :: "'tm stdlib \<Rightarrow> 'tm Torrent" where
  "new_Torrent L =
     \<lparr>Id' = 0, Title = [], Category = [], Size = 0, Seeders = 0, Leechers = 0,
      Uploaded = time_zero L, Uploader = [], Files_num = 0, Description = [], Magnet = []\<rparr>"

text \<open>
  \<open>before evs r\<close>: the events \<open>evs\<close> happen, then the run \<open>r\<close> goes on.
\<close>

fun before :: "'e list \<Rightarrow> ('e list \<times> 'a) option \<Rightarrow> ('e list \<times> 'a) option" where
  "before evs None = None"
| "before evs (Some (evs', x)) = Some (evs @ evs', x)"

text \<open>
  What the three retrying branches of \<^verbatim>\<open>runner\<close> do before \<^verbatim>\<open>goto start\<close>: the log line
  under \<^verbatim>\<open>DEBUG\<close>, then \<^verbatim>\<open>time.Sleep(time.Duration(tries) * time.Second)\<close>.
\<close>

definition retry_events :: "bool \<Rightarrow> int \<Rightarrow> int \<Rightarrow> 'tm event list" where
  "retry_events DEBUG i tries =
     (if DEBUG then [LogRetry i tries] else []) @ [Sleep (wrap64 (tries * Second))]"

text \<open>
  The part of the loop body of \<^verbatim>\<open>runner\<close> from the label \<^verbatim>\<open>start\<close> on, for the identifier
  \<open>i\<close>, entered with the value \<open>tries\<close> of the counter. The list is what the requests
  still to come return, one element per request; the result is \<open>None\<close> when the code
  makes a request and the list is empty. Otherwise it is the events, how the iteration
  ends, and the responses left for the identifiers that follow.
\<close>

fun attempt ::
  "'tm stdlib \<Rightarrow> bool \<Rightarrow> int \<Rightarrow> int \<Rightarrow> int \<Rightarrow> response list
   \<Rightarrow> ('tm event list \<times> outcome \<times> response list) option"
where
  "attempt L DEBUG maxTries i tries rs =
     (let tries = wrap64 (tries + 1) in
      if tries > maxTries then
        Some ([LogFailed i], if DEBUG then Exited else Next, rs)
      else
        (case rs of
           [] \<Rightarrow> None
         | GetErr # rs' \<Rightarrow>
             before (HttpGet i # retry_events DEBUG i tries)
               (attempt L DEBUG maxTries i tries rs')
         | ReadErr # rs' \<Rightarrow>
             before (HttpGet i # retry_events DEBUG i tries)
               (attempt L DEBUG maxTries i tries rs')
         | Body data scratch # rs' \<Rightarrow>
             (let body = ioutil_ReadAll data scratch in
              if \<not> bytes_HasPrefix (bytes_of body) doctype then
                before (HttpGet i # retry_events DEBUG i tries)
                  (attempt L DEBUG maxTries i tries rs')
              else
                (case slice_to body 300 of
                   None \<Rightarrow> Some ([HttpGet i], Panicked, rs')
                 | Some window \<Rightarrow>
                     if bytes_Index window notFoundText \<ge> 0 then
                       Some ([HttpGet i], Next, rs')
                     else
                       (case ParseTorrent L (bytes_of body) ((new_Torrent L)\<lparr>Id' := i\<rparr>) of
                          (Some err, t) \<Rightarrow>
                            if DEBUG then Some ([HttpGet i, LogError i err], Exited, rs')
                            else Some ([HttpGet i, LogError i err, Send t], Next, rs')
                        | (None, t) \<Rightarrow> Some ([HttpGet i, Send t], Next, rs'))))))"

text \<open>
  \<^verbatim>\<open>func runner\<close>, for the identifiers it receives from \<^verbatim>\<open>ci\<close> until \<^verbatim>\<open>ci\<close> is closed.
\<close>

fun runner ::
  "'tm stdlib \<Rightarrow> bool \<Rightarrow> int \<Rightarrow> int list \<Rightarrow> response list
   \<Rightarrow> ('tm event list \<times> outcome) option"
where
  "runner L DEBUG maxTries [] rs = Some ([LogGoroutineDone, WgDone], Next)"
| "runner L DEBUG maxTries (i # ci) rs =
     (let processing =
            (if go_rem i (LOG_INTERVAL DEBUG) = 0 then [LogProcessing i] else [])
      in case attempt L DEBUG maxTries i 0 rs of
           None \<Rightarrow> None
         | Some (evs, Next, rs') \<Rightarrow> before (processing @ evs) (runner L DEBUG maxTries ci rs')
         | Some (evs, out, rs') \<Rightarrow> Some (processing @ evs, out))"

subsection \<open>\<^verbatim>\<open>writer\<close>\<close>

text \<open>
  \<^verbatim>\<open>func writer\<close>, for the records it receives from \<^verbatim>\<open>dbChan\<close> until \<^verbatim>\<open>dbChan\<close> is closed.
  \<open>exec db t\<close> is what \<^verbatim>\<open>insertQuery.Exec\<close> does to the store \<open>db\<close> with the eleven values of
  \<open>t\<close>: the store afterwards, and whether the error returned is non-nil.
\<close>

fun writer ::
  "('db \<Rightarrow> 'tm Torrent \<Rightarrow> 'db \<times> bool) \<Rightarrow> bool \<Rightarrow> 'tm Torrent list \<Rightarrow> 'db
   \<Rightarrow> 'tm event list \<times> outcome \<times> 'db"
where
  "writer exec DEBUG [] db = ([Unlock], Next, db)"
| "writer exec DEBUG (t # dbChan) db =
     (case exec db t of
        (db', True) \<Rightarrow>
          if DEBUG then ([Exec t, LogSqlError (Id' t)], Exited, db')
          else (case writer exec DEBUG dbChan db' of
                  (evs, r) \<Rightarrow> ([Exec t, LogSqlError (Id' t)] @ evs, r))
      | (db', False) \<Rightarrow>
          (case writer exec DEBUG dbChan db' of
             (evs, r) \<Rightarrow> (Exec t # evs, r)))"

subsection \<open>The dispatching loop of \<^verbatim>\<open>main\<close>\<close>

text \<open>
  \<^verbatim>\<open>for i := 1 + startOffset; i <= latest+startOffset; i++ { ci <- i }; close(ci)\<close>.
  \<open>dispatch_loop n i hi\<close> is the loop entered with the value \<open>i\<close> of the variable, run for
  at most \<open>n\<close> sends: the identifiers sent, and whether the loop was left and the channel
  closed.
\<close>

fun dispatch_loop :: "nat \<Rightarrow> int \<Rightarrow> int \<Rightarrow> int list \<times> bool" where
  "dispatch_loop n i hi =
     (if i \<le> hi then
        (case n of
           0 \<Rightarrow> ([], False)
         | Suc m \<Rightarrow> (case dispatch_loop m (wrap64 (i + 1)) hi of (ci, closed) \<Rightarrow> (i # ci, closed)))
      else ([], True))"

definition dispatcher :: "nat \<Rightarrow> int \<Rightarrow> int \<Rightarrow> int list \<times> bool" where
  "dispatcher n startOffset latest =
     dispatch_loop n (wrap64 (1 + startOffset)) (wrap64 (latest + startOffset))"

subsection \<open>Reading a list of events\<close>

fun fetches :: "'tm event list \<Rightarrow> nat" where
  "fetches [] = 0"
| "fetches (HttpGet i # evs) = Suc (fetches evs)"
| "fetches (e # evs) = fetches evs"

fun sent :: "'tm event list \<Rightarrow> 'tm Torrent list" where
  "sent [] = []"
| "sent (Send t # evs) = t # sent evs"
| "sent (e # evs) = sent evs"

fun failed_lines :: "'tm event list \<Rightarrow> int list" where
  "failed_lines [] = []"
| "failed_lines (LogFailed i # evs) = i # failed_lines evs"
| "failed_lines (e # evs) = failed_lines evs"




text \<open>
  A response after which \<^verbatim>\<open>runner\<close> retries: the request failed, or the body could not
  be read, or the body does not start with \<^verbatim>\<open>doctype\<close>.
\<close>

fun retryable :: "response \<Rightarrow> bool" where
  "retryable GetErr = True"
| "retryable ReadErr = True"
| "retryable (Body data scratch) = (\<not> bytes_HasPrefix data doctype)"

text \<open>
  The events of \<open>k\<close> attempts in a row that end in a retry, the first one entered with
  the value \<open>tries\<close> of the counter.
\<close>

fun retries :: "bool \<Rightarrow> int \<Rightarrow> int \<Rightarrow> nat \<Rightarrow> 'tm event list" where
  "retries DEBUG i tries 0 = []"
| "retries DEBUG i tries (Suc k) =
     HttpGet i # retry_events DEBUG i (wrap64 (tries + 1))
       @ retries DEBUG i (wrap64 (tries + 1)) k"



subsection \<open>One instance of the parameters, for evaluation\<close>

text \<open>
  The theorems below hold for every library record and every \<open>exec\<close>. To run the model
  on concrete pages the parameters need values; these are models of the library on the
  inputs used here.

  \<open>unescape_basic\<close> replaces the entities \<^verbatim>\<open>&amp;\<close>, \<^verbatim>\<open>&lt;\<close>, \<^verbatim>\<open>&gt;\<close>, \<^verbatim>\<open>&quot;\<close> and
  \<^verbatim>\<open>&#39;\<close>, as \<^verbatim>\<open>html.UnescapeString\<close> does, and leaves every other byte as it is
  (\<^verbatim>\<open>html.UnescapeString\<close> knows many more entities).
\<close>

fun unescape_basic :: "string \<Rightarrow> string" where
  "unescape_basic [] = []"
| "unescape_basic (c # cs) =
     (if take 5 (c # cs) = ''&amp;'' then CHR ''&'' # unescape_basic (drop 4 cs)
      else if take 4 (c # cs) = ''&lt;'' then CHR ''<'' # unescape_basic (drop 3 cs)
      else if take 4 (c # cs) = ''&gt;'' then CHR ''>'' # unescape_basic (drop 3 cs)
      else if take 6 (c # cs) = ''&quot;'' then CHR 0x22 # unescape_basic (drop 5 cs)
      else if take 5 (c # cs) = ''&#39;'' then CHR 0x27 # unescape_basic (drop 4 cs)
      else c # unescape_basic cs)"

text \<open>
  A time is its fields. \<open>parse_time\<close> accepts the values of the form
  \<^verbatim>\<open>YYYY-MM-DD hh:mm:ss ZZZ\<close> (digits, then three capital letters) that name a day of the
  calendar and a time of the day, as \<^verbatim>\<open>time.Parse\<close> with the layout
  \<^verbatim>\<open>2006-01-02 15:04:05 MST\<close> does, and rejects every other value (of which
  \<^verbatim>\<open>time.Parse\<close> accepts some, for instance one with a fraction of a second). On an
  error the time returned is the zero time, as in Go.
\<close>

datatype Time = Time int int int int int int string

definition zero_Time :: Time where
  "zero_Time = Time 1 1 1 0 0 0 ''UTC''"

fun number :: "string \<Rightarrow> int option" where
  "number s = (case ParseInt s of (v, None) \<Rightarrow> Some v | (v, Some e) \<Rightarrow> None)"

definition days_in :: "int \<Rightarrow> int \<Rightarrow> int" where
  "days_in month year =
     (if month = 2 then
        (if year mod 4 = 0 \<and> (year mod 100 \<noteq> 0 \<or> year mod 400 = 0) then 29 else 28)
      else if month \<in> {4, 6, 9, 11} then 30 else 31)"

definition parse_time :: "string \<Rightarrow> string \<Rightarrow> Time \<times> bool" where
  "parse_time layout v =
     (if layout = ''2006-01-02 15:04:05 MST'' \<and> length v = 23
         \<and> (\<forall>k \<in> {0, 1, 2, 3, 5, 6, 8, 9, 11, 12, 14, 15, 17, 18}. v ! k \<in> set ''0123456789'')
         \<and> v ! 4 = CHR ''-'' \<and> v ! 7 = CHR ''-'' \<and> v ! 10 = CHR '' ''
         \<and> v ! 13 = CHR '':'' \<and> v ! 16 = CHR '':'' \<and> v ! 19 = CHR '' ''
         \<and> (\<forall>k \<in> {20, 21, 22}. v ! k \<in> set ''ABCDEFGHIJKLMNOPQRSTUVWXYZ'')
      then
        (case (number (take 4 v), number (take 2 (drop 5 v)), number (take 2 (drop 8 v)),
               number (take 2 (drop 11 v)), number (take 2 (drop 14 v)),
               number (take 2 (drop 17 v))) of
           (Some y, Some mo, Some d, Some h, Some mi, Some s) \<Rightarrow>
             if 1 \<le> mo \<and> mo \<le> 12 \<and> 1 \<le> d \<and> d \<le> days_in mo y
                \<and> h \<le> 23 \<and> mi \<le> 59 \<and> s \<le> 59
             then (Time y mo d h mi s (drop 20 v), False)
             else (zero_Time, True)
         | _ \<Rightarrow> (zero_Time, True))
      else (zero_Time, True))"

definition golib :: "Time stdlib" where
  "golib =
     \<lparr>html_UnescapeString = unescape_basic, time_Parse = parse_time, time_zero = zero_Time\<rparr>"

text \<open>
  The table \<^verbatim>\<open>Torrents\<close> as the list of its rows. \<^verbatim>\<open>Id\<close> is its primary key: an insert
  of a row whose \<^verbatim>\<open>Id\<close> is in the table fails and leaves the table as it is.
\<close>

definition sqlite_Exec :: "'tm Torrent list \<Rightarrow> 'tm Torrent \<Rightarrow> 'tm Torrent list \<times> bool" where
  "sqlite_Exec rows t =
     (if Id' t \<in> set (map Id' rows) then (rows, True) else (rows @ [t], False))"

text \<open>A page with the ten fields.\<close>

definition page_full :: string where
  \<open>page_full =
     ''<!DOCTYPE html PUBLIC "x">'' @
     ''<div id="title"> T&amp;J </div>'' @
     ''<dt>Type:</dt><dd><a>C</a></dd>'' @
     ''<dt>Size:</dt>(1024&nbsp;Bytes)</dd>'' @
     ''<dt>Seeders:</dt>12</dd>'' @
     ''<dt>Leechers:</dt>4</dd>'' @
     ''<dt>Uploaded:</dt><dd>2004-03-16 23:25:54 GMT</dd>'' @
     ''<dt>By:</dt><dd><a>A&amp;B</a>'' @
     ''<dt>Files:</dt><dd><a>3</a></dd>'' @
     ''<div class="nfo"><pre> a <b>c</b> </pre>'' @
     ''<a href="magnet:?x" title="Get this torrent">''\<close>

text \<open>
  A page whose number of seeders does not fit 64 bits, and nothing after it.
\<close>

definition page_seeders_overflow :: string where
  \<open>page_seeders_overflow =
     ''<!DOCTYPE html PUBLIC "x">'' @
     ''<div id="title">T</div>'' @
     ''<dt>Type:</dt><dd><a>C</a></dd>'' @
     ''<dt>Size:</dt> (1024&nbsp;Bytes)</dd>'' @
     ''<dt>Seeders:</dt><dd>99999999999999999999</dd>''\<close>

text \<open>A page that starts as a page of the site does and has none of the fields.\<close>

definition page_empty :: string where
  \<open>page_empty = ''<!DOCTYPE html PUBLIC "x"><html></html>''\<close>

text \<open>The page of an identifier that does not exist.\<close>

definition page_not_found :: string where
  \<open>page_not_found =
     ''<!DOCTYPE html PUBLIC "x">'' @
     ''<title>Not Found | The Pirate Bay - The world's most resilient BitTorrent site</title>''\<close>

subsection \<open>The specification's reading of the extractor\<close>

text \<open>
  These definitions follow the words of the specification, not the code: every field
  has a check of its own on the whole input, which fails with the field's
  \<^verbatim>\<open>not found\<close> when the pattern has no match and, for a number or the time, with the
  field's \<^verbatim>\<open>malformed\<close> when the text matched does not convert; and the error of the
  extractor is the one of the first field, in the fixed order, whose check fails.
\<close>

definition spec_text_error :: "regexp \<Rightarrow> string \<Rightarrow> string \<Rightarrow> string option" where
  "spec_text_error re name data =
     (case FindSubmatch re data of
        None \<Rightarrow> Some (name @ '' not found'')
      | Some m \<Rightarrow> None)"

definition spec_number_error :: "regexp \<Rightarrow> string \<Rightarrow> string \<Rightarrow> string option" where
  "spec_number_error re name data =
     (case FindSubmatch re data of
        None \<Rightarrow> Some (name @ '' not found'')
      | Some m \<Rightarrow> if snd (ParseInt (m ! 1)) \<noteq> None then Some (name @ '' malformed'') else None)"

definition spec_time_error :: "'tm stdlib \<Rightarrow> regexp \<Rightarrow> string \<Rightarrow> string \<Rightarrow> string option" where
  "spec_time_error L re name data =
     (case FindSubmatch re data of
        None \<Rightarrow> Some (name @ '' not found'')
      | Some m \<Rightarrow>
          if snd (time_Parse L ''2006-01-02 15:04:05 MST'' (m ! 1))
          then Some (name @ '' malformed'') else None)"

definition spec_field_errors :: "'tm stdlib \<Rightarrow> string \<Rightarrow> string option list" where
  "spec_field_errors L data =
     [spec_text_error regexes_title ''title'' data,
      spec_text_error regexes_category ''category'' data,
      spec_number_error regexes_size ''size'' data,
      spec_number_error regexes_seeders ''seeders'' data,
      spec_number_error regexes_leechers ''leechers'' data,
      spec_time_error L regexes_uploaded ''uploaded'' data,
      spec_text_error regexes_uploader ''uploader'' data,
      spec_number_error regexes_files_num ''files_num'' data,
      spec_text_error regexes_description ''description'' data,
      spec_text_error regexes_magnet ''magnet'' data]"

fun spec_first_error :: "string option list \<Rightarrow> string option" where
  "spec_first_error [] = None"
| "spec_first_error (None # es) = spec_first_error es"
| "spec_first_error (Some e # es) = Some e"

text \<open>The specification's trimming of surrounding whitespace.\<close>

definition spec_trim :: "string \<Rightarrow> string" where
  "spec_trim s = rev (dropWhile (in_class Space) (rev (dropWhile (in_class Space) s)))"

section \<open>The extractor\<close>

subsection \<open>Each step, and the whole of \<^verbatim>\<open>ParseTorrent\<close>, as one conditional\<close>

lemma parse_title_eq:
  "parse_title L data t =
     (if FindSubmatch regexes_title data = None then (Some ''title not found'', t)
      else (None, t\<lparr>Title := stored_Title L data\<rparr>))"
  by (simp add: parse_title_def stored_Title_def submatch_def split: option.splits)

lemma parse_category_eq:
  "parse_category L data t =
     (if FindSubmatch regexes_category data = None then (Some ''category not found'', t)
      else (None, t\<lparr>Category := stored_Category L data\<rparr>))"
  by (simp add: parse_category_def stored_Category_def submatch_def split: option.splits)

lemma parse_size_eq:
  "parse_size data t =
     (if FindSubmatch regexes_size data = None then (Some ''size not found'', t)
      else (if snd (ParseInt (submatch regexes_size data)) \<noteq> None
            then Some ''size malformed'' else None,
            t\<lparr>Size := stored_Size data\<rparr>))"
  by (simp add: parse_size_def stored_Size_def submatch_def
      split: option.splits prod.splits)

lemma parse_seeders_eq:
  "parse_seeders data t =
     (if FindSubmatch regexes_seeders data = None then (Some ''seeders not found'', t)
      else (if snd (Atoi (submatch regexes_seeders data)) \<noteq> None
            then Some ''seeders malformed'' else None,
            t\<lparr>Seeders := stored_Seeders data\<rparr>))"
  by (simp add: parse_seeders_def stored_Seeders_def submatch_def
      split: option.splits prod.splits)

lemma parse_leechers_eq:
  "parse_leechers data t =
     (if FindSubmatch regexes_leechers data = None then (Some ''leechers not found'', t)
      else (if snd (Atoi (submatch regexes_leechers data)) \<noteq> None
            then Some ''leechers malformed'' else None,
            t\<lparr>Leechers := stored_Leechers data\<rparr>))"
  by (simp add: parse_leechers_def stored_Leechers_def submatch_def
      split: option.splits prod.splits)

lemma parse_uploaded_eq:
  "parse_uploaded L data t =
     (if FindSubmatch regexes_uploaded data = None then (Some ''uploaded not found'', t)
      else (if snd (time_Parse L ''2006-01-02 15:04:05 MST'' (submatch regexes_uploaded data))
            then Some ''uploaded malformed'' else None,
            t\<lparr>Uploaded := stored_Uploaded L data\<rparr>))"
  by (simp add: parse_uploaded_def stored_Uploaded_def submatch_def
      split: option.splits prod.splits)

lemma parse_uploader_eq:
  "parse_uploader data t =
     (if FindSubmatch regexes_uploader data = None then (Some ''uploader not found'', t)
      else (None, t\<lparr>Uploader := stored_Uploader data\<rparr>))"
  by (simp add: parse_uploader_def stored_Uploader_def submatch_def split: option.splits)

lemma parse_files_num_eq:
  "parse_files_num data t =
     (if FindSubmatch regexes_files_num data = None then (Some ''files_num not found'', t)
      else (if snd (Atoi (submatch regexes_files_num data)) \<noteq> None
            then Some ''files_num malformed'' else None,
            t\<lparr>Files_num := stored_Files_num data\<rparr>))"
  by (simp add: parse_files_num_def stored_Files_num_def submatch_def
      split: option.splits prod.splits)

lemma parse_description_eq:
  "parse_description L data t =
     (if FindSubmatch regexes_description data = None then (Some ''description not found'', t)
      else (None, t\<lparr>Description := stored_Description L data\<rparr>))"
  by (simp add: parse_description_def stored_Description_def submatch_def split: option.splits)

lemma parse_magnet_eq:
  "parse_magnet data t =
     (if FindSubmatch regexes_magnet data = None then (Some ''magnet not found'', t)
      else (None, t\<lparr>Magnet := stored_Magnet data\<rparr>))"
  by (simp add: parse_magnet_def stored_Magnet_def submatch_def split: option.splits)

lemma and_then_title:
  "and_then (parse_title L data) g t =
     (if FindSubmatch regexes_title data = None then (Some ''title not found'', t)
      else g (t\<lparr>Title := stored_Title L data\<rparr>))"
  by (simp add: and_then_def parse_title_eq)

lemma and_then_category:
  "and_then (parse_category L data) g t =
     (if FindSubmatch regexes_category data = None then (Some ''category not found'', t)
      else g (t\<lparr>Category := stored_Category L data\<rparr>))"
  by (simp add: and_then_def parse_category_eq)

lemma and_then_size:
  "and_then (parse_size data) g t =
     (if FindSubmatch regexes_size data = None then (Some ''size not found'', t)
      else if snd (ParseInt (submatch regexes_size data)) \<noteq> None
      then (Some ''size malformed'', t\<lparr>Size := stored_Size data\<rparr>)
      else g (t\<lparr>Size := stored_Size data\<rparr>))"
  by (simp add: and_then_def parse_size_eq)

lemma and_then_seeders:
  "and_then (parse_seeders data) g t =
     (if FindSubmatch regexes_seeders data = None then (Some ''seeders not found'', t)
      else if snd (Atoi (submatch regexes_seeders data)) \<noteq> None
      then (Some ''seeders malformed'', t\<lparr>Seeders := stored_Seeders data\<rparr>)
      else g (t\<lparr>Seeders := stored_Seeders data\<rparr>))"
  by (simp add: and_then_def parse_seeders_eq)

lemma and_then_leechers:
  "and_then (parse_leechers data) g t =
     (if FindSubmatch regexes_leechers data = None then (Some ''leechers not found'', t)
      else if snd (Atoi (submatch regexes_leechers data)) \<noteq> None
      then (Some ''leechers malformed'', t\<lparr>Leechers := stored_Leechers data\<rparr>)
      else g (t\<lparr>Leechers := stored_Leechers data\<rparr>))"
  by (simp add: and_then_def parse_leechers_eq)

lemma and_then_uploaded:
  "and_then (parse_uploaded L data) g t =
     (if FindSubmatch regexes_uploaded data = None then (Some ''uploaded not found'', t)
      else if snd (time_Parse L ''2006-01-02 15:04:05 MST'' (submatch regexes_uploaded data))
      then (Some ''uploaded malformed'', t\<lparr>Uploaded := stored_Uploaded L data\<rparr>)
      else g (t\<lparr>Uploaded := stored_Uploaded L data\<rparr>))"
  by (simp add: and_then_def parse_uploaded_eq)

lemma and_then_uploader:
  "and_then (parse_uploader data) g t =
     (if FindSubmatch regexes_uploader data = None then (Some ''uploader not found'', t)
      else g (t\<lparr>Uploader := stored_Uploader data\<rparr>))"
  by (simp add: and_then_def parse_uploader_eq)

lemma and_then_files_num:
  "and_then (parse_files_num data) g t =
     (if FindSubmatch regexes_files_num data = None then (Some ''files_num not found'', t)
      else if snd (Atoi (submatch regexes_files_num data)) \<noteq> None
      then (Some ''files_num malformed'', t\<lparr>Files_num := stored_Files_num data\<rparr>)
      else g (t\<lparr>Files_num := stored_Files_num data\<rparr>))"
  by (simp add: and_then_def parse_files_num_eq)

lemma and_then_description:
  "and_then (parse_description L data) g t =
     (if FindSubmatch regexes_description data = None then (Some ''description not found'', t)
      else g (t\<lparr>Description := stored_Description L data\<rparr>))"
  by (simp add: and_then_def parse_description_eq)

lemmas and_then_parse =
  and_then_title and_then_category and_then_size and_then_seeders and_then_leechers
  and_then_uploaded and_then_uploader and_then_files_num and_then_description

lemma ParseTorrent_unfold:
  "ParseTorrent L data t =
     (if FindSubmatch regexes_title data = None then
        (Some ''title not found'',
         t)
      else if FindSubmatch regexes_category data = None then
        (Some ''category not found'',
         t\<lparr>Title := stored_Title L data\<rparr>)
      else if FindSubmatch regexes_size data = None then
        (Some ''size not found'',
         t\<lparr>Title := stored_Title L data, Category := stored_Category L data\<rparr>)
      else if snd (ParseInt (submatch regexes_size data)) \<noteq> None then
        (Some ''size malformed'',
         t\<lparr>Title := stored_Title L data, Category := stored_Category L data,
           Size := stored_Size data\<rparr>)
      else if FindSubmatch regexes_seeders data = None then
        (Some ''seeders not found'',
         t\<lparr>Title := stored_Title L data, Category := stored_Category L data,
           Size := stored_Size data\<rparr>)
      else if snd (Atoi (submatch regexes_seeders data)) \<noteq> None then
        (Some ''seeders malformed'',
         t\<lparr>Title := stored_Title L data, Category := stored_Category L data,
           Size := stored_Size data, Seeders := stored_Seeders data\<rparr>)
      else if FindSubmatch regexes_leechers data = None then
        (Some ''leechers not found'',
         t\<lparr>Title := stored_Title L data, Category := stored_Category L data,
           Size := stored_Size data, Seeders := stored_Seeders data\<rparr>)
      else if snd (Atoi (submatch regexes_leechers data)) \<noteq> None then
        (Some ''leechers malformed'',
         t\<lparr>Title := stored_Title L data, Category := stored_Category L data,
           Size := stored_Size data, Seeders := stored_Seeders data,
           Leechers := stored_Leechers data\<rparr>)
      else if FindSubmatch regexes_uploaded data = None then
        (Some ''uploaded not found'',
         t\<lparr>Title := stored_Title L data, Category := stored_Category L data,
           Size := stored_Size data, Seeders := stored_Seeders data,
           Leechers := stored_Leechers data\<rparr>)
      else if snd (time_Parse L ''2006-01-02 15:04:05 MST'' (submatch regexes_uploaded data)) then
        (Some ''uploaded malformed'',
         t\<lparr>Title := stored_Title L data, Category := stored_Category L data,
           Size := stored_Size data, Seeders := stored_Seeders data,
           Leechers := stored_Leechers data, Uploaded := stored_Uploaded L data\<rparr>)
      else if FindSubmatch regexes_uploader data = None then
        (Some ''uploader not found'',
         t\<lparr>Title := stored_Title L data, Category := stored_Category L data,
           Size := stored_Size data, Seeders := stored_Seeders data,
           Leechers := stored_Leechers data, Uploaded := stored_Uploaded L data\<rparr>)
      else if FindSubmatch regexes_files_num data = None then
        (Some ''files_num not found'',
         t\<lparr>Title := stored_Title L data, Category := stored_Category L data,
           Size := stored_Size data, Seeders := stored_Seeders data,
           Leechers := stored_Leechers data, Uploaded := stored_Uploaded L data,
           Uploader := stored_Uploader data\<rparr>)
      else if snd (Atoi (submatch regexes_files_num data)) \<noteq> None then
        (Some ''files_num malformed'',
         t\<lparr>Title := stored_Title L data, Category := stored_Category L data,
           Size := stored_Size data, Seeders := stored_Seeders data,
           Leechers := stored_Leechers data, Uploaded := stored_Uploaded L data,
           Uploader := stored_Uploader data, Files_num := stored_Files_num data\<rparr>)
      else if FindSubmatch regexes_description data = None then
        (Some ''description not found'',
         t\<lparr>Title := stored_Title L data, Category := stored_Category L data,
           Size := stored_Size data, Seeders := stored_Seeders data,
           Leechers := stored_Leechers data, Uploaded := stored_Uploaded L data,
           Uploader := stored_Uploader data, Files_num := stored_Files_num data\<rparr>)
      else if FindSubmatch regexes_magnet data = None then
        (Some ''magnet not found'',
         t\<lparr>Title := stored_Title L data, Category := stored_Category L data,
           Size := stored_Size data, Seeders := stored_Seeders data,
           Leechers := stored_Leechers data, Uploaded := stored_Uploaded L data,
           Uploader := stored_Uploader data, Files_num := stored_Files_num data,
           Description := stored_Description L data\<rparr>)
      else
        (None,
         t\<lparr>Title := stored_Title L data, Category := stored_Category L data,
           Size := stored_Size data, Seeders := stored_Seeders data,
           Leechers := stored_Leechers data, Uploaded := stored_Uploaded L data,
           Uploader := stored_Uploader data, Files_num := stored_Files_num data,
           Description := stored_Description L data, Magnet := stored_Magnet data\<rparr>))"
  unfolding ParseTorrent_def and_then_parse parse_magnet_eq ..

subsection \<open>The error returned is the one of the first field that fails\<close>

lemma first_error_and_then:
  assumes "\<And>t. fst (f t) = a" and "\<And>t. fst (g t) = spec_first_error as"
  shows "fst (and_then f g t) = spec_first_error (a # as)"
proof -
  have "fst (and_then f g t) =
          (case fst (f t) of Some e \<Rightarrow> Some e | None \<Rightarrow> fst (g (snd (f t))))"
    by (simp add: and_then_def split: prod.splits option.splits)
  then show ?thesis
    by (cases a) (simp_all add: assms)
qed

lemma fst_parse_title:
  "fst (parse_title L data t) = spec_text_error regexes_title ''title'' data"
  by (simp add: parse_title_def spec_text_error_def split: option.splits)

lemma fst_parse_category:
  "fst (parse_category L data t) = spec_text_error regexes_category ''category'' data"
  by (simp add: parse_category_def spec_text_error_def split: option.splits)

lemma fst_parse_size:
  "fst (parse_size data t) = spec_number_error regexes_size ''size'' data"
  by (simp add: parse_size_def spec_number_error_def split: option.splits prod.splits)

lemma fst_parse_seeders:
  "fst (parse_seeders data t) = spec_number_error regexes_seeders ''seeders'' data"
  by (simp add: parse_seeders_def Atoi_def spec_number_error_def
      split: option.splits prod.splits)

lemma fst_parse_leechers:
  "fst (parse_leechers data t) = spec_number_error regexes_leechers ''leechers'' data"
  by (simp add: parse_leechers_def Atoi_def spec_number_error_def
      split: option.splits prod.splits)

lemma fst_parse_uploaded:
  "fst (parse_uploaded L data t) = spec_time_error L regexes_uploaded ''uploaded'' data"
  by (simp add: parse_uploaded_def spec_time_error_def split: option.splits prod.splits)

lemma fst_parse_uploader:
  "fst (parse_uploader data t) = spec_text_error regexes_uploader ''uploader'' data"
  by (simp add: parse_uploader_def spec_text_error_def split: option.splits)

lemma fst_parse_files_num:
  "fst (parse_files_num data t) = spec_number_error regexes_files_num ''files_num'' data"
  by (simp add: parse_files_num_def Atoi_def spec_number_error_def
      split: option.splits prod.splits)

lemma fst_parse_description:
  "fst (parse_description L data t) =
     spec_text_error regexes_description ''description'' data"
  by (simp add: parse_description_def spec_text_error_def split: option.splits)

lemma fst_parse_magnet:
  "fst (parse_magnet data t) =
     spec_first_error [spec_text_error regexes_magnet ''magnet'' data]"
  by (simp add: parse_magnet_def spec_text_error_def split: option.splits)

lemma fst_ParseTorrent:
  "fst (ParseTorrent L data t) = spec_first_error (spec_field_errors L data)"
  unfolding ParseTorrent_def spec_field_errors_def
  by (intro first_error_and_then fst_parse_title fst_parse_category fst_parse_size
      fst_parse_seeders fst_parse_leechers fst_parse_uploaded fst_parse_uploader
      fst_parse_files_num fst_parse_description fst_parse_magnet)

lemma number_errors:
  "(fst (ParseTorrent L data t) = Some ''size not found''
      \<longrightarrow> FindSubmatch regexes_size data = None)
   \<and> (fst (ParseTorrent L data t) = Some ''size malformed''
      \<longrightarrow> FindSubmatch regexes_size data \<noteq> None
          \<and> snd (ParseInt (submatch regexes_size data)) \<noteq> None)
   \<and> (fst (ParseTorrent L data t) = Some ''seeders not found''
      \<longrightarrow> FindSubmatch regexes_seeders data = None)
   \<and> (fst (ParseTorrent L data t) = Some ''seeders malformed''
      \<longrightarrow> FindSubmatch regexes_seeders data \<noteq> None
          \<and> snd (Atoi (submatch regexes_seeders data)) \<noteq> None)
   \<and> (fst (ParseTorrent L data t) = Some ''leechers not found''
      \<longrightarrow> FindSubmatch regexes_leechers data = None)
   \<and> (fst (ParseTorrent L data t) = Some ''leechers malformed''
      \<longrightarrow> FindSubmatch regexes_leechers data \<noteq> None
          \<and> snd (Atoi (submatch regexes_leechers data)) \<noteq> None)
   \<and> (fst (ParseTorrent L data t) = Some ''files_num not found''
      \<longrightarrow> FindSubmatch regexes_files_num data = None)
   \<and> (fst (ParseTorrent L data t) = Some ''files_num malformed''
      \<longrightarrow> FindSubmatch regexes_files_num data \<noteq> None
          \<and> snd (Atoi (submatch regexes_files_num data)) \<noteq> None)"
  unfolding ParseTorrent_unfold by simp

subsection \<open>The sample pages, evaluated\<close>

lemma golib_simps:
  "html_UnescapeString golib = unescape_basic"
  "time_Parse golib = parse_time"
  "time_zero golib = zero_Time"
  by (simp_all add: golib_def)

lemma overflow_title:
  "FindSubmatch regexes_title page_seeders_overflow \<noteq> None
   \<and> submatch regexes_title page_seeders_overflow = ''T''"
  by code_simp

lemma overflow_category:
  "FindSubmatch regexes_category page_seeders_overflow \<noteq> None
   \<and> submatch regexes_category page_seeders_overflow = ''C''"
  by code_simp

lemma overflow_size:
  "FindSubmatch regexes_size page_seeders_overflow \<noteq> None
   \<and> submatch regexes_size page_seeders_overflow = ''1024''"
  by code_simp

lemma overflow_seeders:
  "FindSubmatch regexes_seeders page_seeders_overflow \<noteq> None
   \<and> submatch regexes_seeders page_seeders_overflow = ''99999999999999999999''"
  by code_simp

lemma ParseInt_1024: "ParseInt ''1024'' = (1024, None)"
  by code_simp

lemma Atoi_overflow: "Atoi ''99999999999999999999'' = (9223372036854775807, Some ErrRange)"
  by code_simp

lemma unescape_T: "unescape_basic ''T'' = ''T''"
  by code_simp

lemma unescape_C: "unescape_basic ''C'' = ''C''"
  by code_simp

lemma ParseTorrent_page_seeders_overflow:
  "ParseTorrent golib page_seeders_overflow t =
     (Some ''seeders malformed'',
      t\<lparr>Title := ''T'', Category := ''C'', Size := 1024, Seeders := 9223372036854775807\<rparr>)"
  by (simp add: ParseTorrent_unfold overflow_title overflow_category overflow_size
      overflow_seeders stored_Title_def stored_Category_def stored_Size_def
      stored_Seeders_def golib_simps ParseInt_1024 Atoi_overflow unescape_T unescape_C)

lemma full_title:
  "FindSubmatch regexes_title page_full \<noteq> None
   \<and> submatch regexes_title page_full = ''T&amp;J''"
  by code_simp

lemma full_category:
  "FindSubmatch regexes_category page_full \<noteq> None
   \<and> submatch regexes_category page_full = ''C''"
  by code_simp

lemma full_size:
  "FindSubmatch regexes_size page_full \<noteq> None
   \<and> submatch regexes_size page_full = ''1024''"
  by code_simp

lemma full_seeders:
  "FindSubmatch regexes_seeders page_full \<noteq> None
   \<and> submatch regexes_seeders page_full = ''12''"
  by code_simp

lemma full_leechers:
  "FindSubmatch regexes_leechers page_full \<noteq> None
   \<and> submatch regexes_leechers page_full = ''4''"
  by code_simp

lemma full_uploaded:
  "FindSubmatch regexes_uploaded page_full \<noteq> None
   \<and> submatch regexes_uploaded page_full = ''2004-03-16 23:25:54 GMT''"
  by code_simp

lemma full_uploader:
  "FindSubmatch regexes_uploader page_full \<noteq> None
   \<and> submatch regexes_uploader page_full = ''A&amp;B''"
  by code_simp

lemma full_files_num:
  "FindSubmatch regexes_files_num page_full \<noteq> None
   \<and> submatch regexes_files_num page_full = ''3''"
  by code_simp

lemma full_description:
  "FindSubmatch regexes_description page_full \<noteq> None
   \<and> submatch regexes_description page_full = '' a <b>c</b> ''"
  by code_simp

lemma full_magnet:
  "FindSubmatch regexes_magnet page_full \<noteq> None
   \<and> submatch regexes_magnet page_full = ''magnet:?x''"
  by code_simp

lemmas full_matches =
  full_title full_category full_size full_seeders full_leechers
  full_uploaded full_uploader full_files_num full_description full_magnet

lemma Atoi_12: "Atoi ''12'' = (12, None)"
  by code_simp

lemma Atoi_4: "Atoi ''4'' = (4, None)"
  by code_simp

lemma Atoi_3: "Atoi ''3'' = (3, None)"
  by code_simp

lemma parse_time_2004:
  "parse_time ''2006-01-02 15:04:05 MST'' ''2004-03-16 23:25:54 GMT'' =
     (Time 2004 3 16 23 25 54 ''GMT'', False)"
  by code_simp

lemma unescape_title: "unescape_basic ''T&amp;J'' = ''T&J''"
  by code_simp

lemma unescape_uploader: "unescape_basic ''A&amp;B'' = ''A&B''"
  by code_simp

lemma stripTags_description: "stripTags '' a <b>c</b> '' = '' a c ''"
  by code_simp

lemma unescape_description: "unescape_basic '' a c '' = '' a c ''"
  by code_simp

lemma trim_description: "spec_trim '' a c '' = ''a c''"
  by code_simp

lemma trim_description_raw: "spec_trim '' a <b>c</b> '' = ''a <b>c</b>''"
  by code_simp

lemma stripTags_trimmed: "stripTags ''a <b>c</b>'' = ''a c''"
  by code_simp

lemma unescape_trimmed: "unescape_basic ''a c'' = ''a c''"
  by code_simp

lemma ParseTorrent_page_full:
  "ParseTorrent golib page_full t =
     (None,
      t\<lparr>Title := ''T&J'', Category := ''C'', Size := 1024, Seeders := 12, Leechers := 4,
        Uploaded := Time 2004 3 16 23 25 54 ''GMT'', Uploader := ''A&amp;B'',
        Files_num := 3, Description := '' a c '', Magnet := ''magnet:?x''\<rparr>)"
  by (simp add: ParseTorrent_unfold full_matches stored_Title_def stored_Category_def
      stored_Size_def stored_Seeders_def stored_Leechers_def stored_Uploaded_def
      stored_Uploader_def stored_Files_num_def stored_Description_def stored_Magnet_def
      golib_simps ParseInt_1024 Atoi_12 Atoi_4 Atoi_3 parse_time_2004 unescape_title
      stripTags_description unescape_description unescape_C)

subsection \<open>Claims about the extractor\<close>

text \<open>
  C5. Given the bytes of a document, the extractor tries the ten fields in one fixed
  order (title, category, size, seeders, leechers, uploaded, uploader, files_num,
  description, magnet), each with a pattern match of its own on the same, unchanged
  input: the error returned is the error of the first field in that order whose own
  check of the whole input fails, whatever the record passed in. For the four numbers
  the error \<^verbatim>\<open>not found\<close> is returned only when the pattern has no match, and the error
  \<^verbatim>\<open>malformed\<close>, a different one, only when the pattern matched and the text matched
  did not convert.
\<close>

theorem ParseTorrent_first_error:
  "fst (ParseTorrent L data t) = spec_first_error (spec_field_errors L data)
   \<and> (fst (ParseTorrent L data t) = Some ''size not found''
      \<longrightarrow> FindSubmatch regexes_size data = None)
   \<and> (fst (ParseTorrent L data t) = Some ''size malformed''
      \<longrightarrow> FindSubmatch regexes_size data \<noteq> None
          \<and> snd (ParseInt (submatch regexes_size data)) \<noteq> None)
   \<and> (fst (ParseTorrent L data t) = Some ''seeders not found''
      \<longrightarrow> FindSubmatch regexes_seeders data = None)
   \<and> (fst (ParseTorrent L data t) = Some ''seeders malformed''
      \<longrightarrow> FindSubmatch regexes_seeders data \<noteq> None
          \<and> snd (Atoi (submatch regexes_seeders data)) \<noteq> None)
   \<and> (fst (ParseTorrent L data t) = Some ''leechers not found''
      \<longrightarrow> FindSubmatch regexes_leechers data = None)
   \<and> (fst (ParseTorrent L data t) = Some ''leechers malformed''
      \<longrightarrow> FindSubmatch regexes_leechers data \<noteq> None
          \<and> snd (Atoi (submatch regexes_leechers data)) \<noteq> None)
   \<and> (fst (ParseTorrent L data t) = Some ''files_num not found''
      \<longrightarrow> FindSubmatch regexes_files_num data = None)
   \<and> (fst (ParseTorrent L data t) = Some ''files_num malformed''
      \<longrightarrow> FindSubmatch regexes_files_num data \<noteq> None
          \<and> snd (Atoi (submatch regexes_files_num data)) \<noteq> None)"
  using fst_ParseTorrent [of L data t] number_errors [of L data t] by (rule conjI)

theorem ParseTorrent_first_error_witness:
  "fst (ParseTorrent golib page_seeders_overflow (new_Torrent golib)) =
     Some ''seeders malformed''
   \<and> spec_first_error (spec_field_errors golib page_seeders_overflow) =
     Some ''seeders malformed''
   \<and> FindSubmatch regexes_seeders page_seeders_overflow \<noteq> None
   \<and> snd (Atoi (submatch regexes_seeders page_seeders_overflow)) \<noteq> None"
proof -
  have e: "fst (ParseTorrent golib page_seeders_overflow (new_Torrent golib)) =
      Some ''seeders malformed''"
    by (simp add: ParseTorrent_page_seeders_overflow)
  from ParseTorrent_first_error [of golib page_seeders_overflow "new_Torrent golib"] e
  show ?thesis by simp
qed

text \<open>
  C10, as it is stated, fails: when the error is a \<^verbatim>\<open>malformed\<close> one, the field at which
  extraction stops does not keep its value. On the page whose number of seeders does
  not fit 64 bits, \<^verbatim>\<open>strconv.Atoi\<close> returns \<open>2^63 - 1\<close> with its error, and the assignment
  \<^verbatim>\<open>t.Seeders, err = strconv.Atoi(...)\<close> has stored it when the error is returned.
\<close>

theorem ParseTorrent_frame_counterexample:
  "fst (ParseTorrent golib page_seeders_overflow (new_Torrent golib)) =
     Some ''seeders malformed''
   \<and> Seeders (snd (ParseTorrent golib page_seeders_overflow (new_Torrent golib))) \<noteq>
     Seeders (new_Torrent golib)"
  by (simp add: ParseTorrent_page_seeders_overflow new_Torrent_def)

text \<open>
  C10, amended. When \<^verbatim>\<open>ParseTorrent\<close> returns an error at the k-th field of the fixed
  order, every field before the k-th holds its extracted value, and \<^verbatim>\<open>Id\<close> and every
  field after the k-th hold the values they had before the call. The k-th field itself
  holds its old value when the error is \<^verbatim>\<open>not found\<close>, and the value returned by the
  failed conversion when the error is \<^verbatim>\<open>malformed\<close>. Nothing is rolled back.
\<close>

theorem ParseTorrent_frame:
  assumes "ParseTorrent L data t = (Some e, t')"
  shows "Id' t' = Id' t \<and>
     ((e = ''title not found'' \<and>
        t' = t)
   \<or> (e = ''category not found'' \<and>
        t' = t\<lparr>Title := stored_Title L data\<rparr>)
   \<or> (e = ''size not found'' \<and>
        t' = t\<lparr>Title := stored_Title L data, Category := stored_Category L data\<rparr>)
   \<or> (e = ''size malformed'' \<and>
        t' = t\<lparr>Title := stored_Title L data, Category := stored_Category L data,
             Size := stored_Size data\<rparr>)
   \<or> (e = ''seeders not found'' \<and>
        t' = t\<lparr>Title := stored_Title L data, Category := stored_Category L data,
             Size := stored_Size data\<rparr>)
   \<or> (e = ''seeders malformed'' \<and>
        t' = t\<lparr>Title := stored_Title L data, Category := stored_Category L data,
             Size := stored_Size data, Seeders := stored_Seeders data\<rparr>)
   \<or> (e = ''leechers not found'' \<and>
        t' = t\<lparr>Title := stored_Title L data, Category := stored_Category L data,
             Size := stored_Size data, Seeders := stored_Seeders data\<rparr>)
   \<or> (e = ''leechers malformed'' \<and>
        t' = t\<lparr>Title := stored_Title L data, Category := stored_Category L data,
             Size := stored_Size data, Seeders := stored_Seeders data,
             Leechers := stored_Leechers data\<rparr>)
   \<or> (e = ''uploaded not found'' \<and>
        t' = t\<lparr>Title := stored_Title L data, Category := stored_Category L data,
             Size := stored_Size data, Seeders := stored_Seeders data,
             Leechers := stored_Leechers data\<rparr>)
   \<or> (e = ''uploaded malformed'' \<and>
        t' = t\<lparr>Title := stored_Title L data, Category := stored_Category L data,
             Size := stored_Size data, Seeders := stored_Seeders data,
             Leechers := stored_Leechers data, Uploaded := stored_Uploaded L data\<rparr>)
   \<or> (e = ''uploader not found'' \<and>
        t' = t\<lparr>Title := stored_Title L data, Category := stored_Category L data,
             Size := stored_Size data, Seeders := stored_Seeders data,
             Leechers := stored_Leechers data, Uploaded := stored_Uploaded L data\<rparr>)
   \<or> (e = ''files_num not found'' \<and>
        t' = t\<lparr>Title := stored_Title L data, Category := stored_Category L data,
             Size := stored_Size data, Seeders := stored_Seeders data,
             Leechers := stored_Leechers data, Uploaded := stored_Uploaded L data,
             Uploader := stored_Uploader data\<rparr>)
   \<or> (e = ''files_num malformed'' \<and>
        t' = t\<lparr>Title := stored_Title L data, Category := stored_Category L data,
             Size := stored_Size data, Seeders := stored_Seeders data,
             Leechers := stored_Leechers data, Uploaded := stored_Uploaded L data,
             Uploader := stored_Uploader data, Files_num := stored_Files_num data\<rparr>)
   \<or> (e = ''description not found'' \<and>
        t' = t\<lparr>Title := stored_Title L data, Category := stored_Category L data,
             Size := stored_Size data, Seeders := stored_Seeders data,
             Leechers := stored_Leechers data, Uploaded := stored_Uploaded L data,
             Uploader := stored_Uploader data, Files_num := stored_Files_num data\<rparr>)
   \<or> (e = ''magnet not found'' \<and>
        t' = t\<lparr>Title := stored_Title L data, Category := stored_Category L data,
             Size := stored_Size data, Seeders := stored_Seeders data,
             Leechers := stored_Leechers data, Uploaded := stored_Uploaded L data,
             Uploader := stored_Uploader data, Files_num := stored_Files_num data,
             Description := stored_Description L data\<rparr>))"
  using assms unfolding ParseTorrent_unfold
  by (auto split: if_splits)

theorem ParseTorrent_frame_witness:
  "ParseTorrent golib page_seeders_overflow (new_Torrent golib) =
     (Some ''seeders malformed'',
      (new_Torrent golib)\<lparr>Title := ''T'', Category := ''C'', Size := 1024,
                            Seeders := 9223372036854775807\<rparr>)
   \<and> Id' (snd (ParseTorrent golib page_seeders_overflow (new_Torrent golib))) =
     Id' (new_Torrent golib)"
proof -
  have h: "ParseTorrent golib page_seeders_overflow (new_Torrent golib) =
      (Some ''seeders malformed'',
       (new_Torrent golib)\<lparr>Title := ''T'', Category := ''C'', Size := 1024,
                             Seeders := 9223372036854775807\<rparr>)"
    by (rule ParseTorrent_page_seeders_overflow)
  from ParseTorrent_frame [OF h] h show ?thesis by simp
qed

text \<open>
  C3, as it is stated, fails on the page with the ten fields: the uploader is stored as
  it was matched, with its entity, and the description keeps the whitespace around it
  (whether trimming is read as done before or after the tags are stripped).
\<close>

theorem ParseTorrent_stored_text_counterexample:
  "fst (ParseTorrent golib page_full (new_Torrent golib)) = None
   \<and> Uploader (snd (ParseTorrent golib page_full (new_Torrent golib))) \<noteq>
     html_UnescapeString golib (submatch regexes_uploader page_full)
   \<and> Description (snd (ParseTorrent golib page_full (new_Torrent golib))) \<noteq>
     html_UnescapeString golib (spec_trim (stripTags (submatch regexes_description page_full)))
   \<and> Description (snd (ParseTorrent golib page_full (new_Torrent golib))) \<noteq>
     html_UnescapeString golib (stripTags (spec_trim (submatch regexes_description page_full)))"
  by (simp add: ParseTorrent_page_full full_matches golib_simps unescape_uploader
      stripTags_description trim_description trim_description_raw stripTags_trimmed
      unescape_trimmed)

text \<open>
  C3, amended. In a record that was extracted with success, the title and the category
  are the text matched by their patterns with the entities un-escaped, and the
  description is the text matched by its pattern with the tags stripped and then the
  entities un-escaped; no whitespace is trimmed from it.
\<close>

theorem ParseTorrent_stored_text:
  assumes "ParseTorrent L data t = (None, t')"
  shows "FindSubmatch regexes_title data \<noteq> None
     \<and> Title t' = html_UnescapeString L (submatch regexes_title data)
     \<and> FindSubmatch regexes_category data \<noteq> None
     \<and> Category t' = html_UnescapeString L (submatch regexes_category data)
     \<and> FindSubmatch regexes_description data \<noteq> None
     \<and> Description t' = html_UnescapeString L (stripTags (submatch regexes_description data))"
  using assms unfolding ParseTorrent_unfold
  by (auto simp: stored_Title_def stored_Category_def stored_Description_def
      split: if_splits)

theorem ParseTorrent_stored_text_witness:
  "fst (ParseTorrent golib page_full (new_Torrent golib)) = None
   \<and> Title (snd (ParseTorrent golib page_full (new_Torrent golib))) = ''T&J''
   \<and> Category (snd (ParseTorrent golib page_full (new_Torrent golib))) = ''C''
   \<and> Description (snd (ParseTorrent golib page_full (new_Torrent golib))) = '' a c ''"
proof -
  have h: "ParseTorrent golib page_full (new_Torrent golib) =
      (None, snd (ParseTorrent golib page_full (new_Torrent golib)))"
    by (simp add: ParseTorrent_page_full)
  from ParseTorrent_stored_text [OF h]
  show ?thesis
    by (simp add: ParseTorrent_page_full)
qed

section \<open>The worker, the writer and the dispatcher\<close>

subsection \<open>Integers, slices and events\<close>

lemma wrap64_id: "MinInt64 \<le> x \<Longrightarrow> x \<le> MaxInt64 \<Longrightarrow> wrap64 x = x"
  by (simp add: wrap64_def MinInt64_def MaxInt64_def)

lemma bytes_of_ReadAll [simp]: "bytes_of (ioutil_ReadAll data scratch) = data"
  by (simp add: bytes_of_def ioutil_ReadAll_def)

lemma cap_ReadAll: "512 \<le> cap (ioutil_ReadAll data scratch)"
  by (simp add: cap_def ioutil_ReadAll_def)

lemma slice_to_None: "slice_to s n = None \<longleftrightarrow> cap s < n"
  by (simp add: slice_to_def)

lemma slice_to_ReadAll:
  "slice_to (ioutil_ReadAll data scratch) 300 = Some (window300 data scratch)"
  using cap_ReadAll [of data scratch] by (simp add: slice_to_def window300_def)

lemma window300_eq:
  "window300 data scratch =
     take 300 (data @ scratch @ replicate (512 - (length data + length scratch)) (CHR 0x00))"
  by (simp add: window300_def ioutil_ReadAll_def)

lemma fetches_append [simp]: "fetches (xs @ ys) = fetches xs + fetches ys"
  by (induction xs rule: fetches.induct) simp_all

lemma sent_append [simp]: "sent (xs @ ys) = sent xs @ sent ys"
  by (induction xs rule: sent.induct) simp_all

lemma failed_lines_append [simp]: "failed_lines (xs @ ys) = failed_lines xs @ failed_lines ys"
  by (induction xs rule: failed_lines.induct) simp_all

lemma retry_events_simps [simp]:
  "fetches (retry_events DEBUG i n) = 0"
  "sent (retry_events DEBUG i n) = []"
  "failed_lines (retry_events DEBUG i n) = []"
  by (simp_all add: retry_events_def)

lemma before_Nil [simp]: "before [] r = r"
  by (cases r) auto

lemma before_before [simp]: "before xs (before ys r) = before (xs @ ys) r"
  by (cases r) auto


subsection \<open>One turn of the retry loop\<close>

lemma attempt_stop:
  "wrap64 (tries + 1) > maxTries \<Longrightarrow>
   attempt L DEBUG maxTries i tries rs =
     Some ([LogFailed i], if DEBUG then Exited else Next, rs)"
  by (simp add: Let_def)

lemma attempt_retry:
  "\<not> wrap64 (tries + 1) > maxTries \<Longrightarrow> retryable r \<Longrightarrow>
   attempt L DEBUG maxTries i tries (r # rs) =
     before (HttpGet i # retry_events DEBUG i (wrap64 (tries + 1)))
       (attempt L DEBUG maxTries i (wrap64 (tries + 1)) rs)"
  by (cases r) (simp_all add: Let_def)

lemma attempt_body:
  "\<not> wrap64 (tries + 1) > maxTries \<Longrightarrow> bytes_HasPrefix data doctype \<Longrightarrow>
   attempt L DEBUG maxTries i tries (Body data scratch # rs) =
     (if bytes_Index (window300 data scratch) notFoundText \<ge> 0
      then Some ([HttpGet i], Next, rs)
      else
        (case ParseTorrent L data ((new_Torrent L)\<lparr>Id' := i\<rparr>) of
           (Some err, t) \<Rightarrow>
             if DEBUG then Some ([HttpGet i, LogError i err], Exited, rs)
             else Some ([HttpGet i, LogError i err, Send t], Next, rs)
         | (None, t) \<Rightarrow> Some ([HttpGet i, Send t], Next, rs)))"
  by (simp add: Let_def slice_to_ReadAll)

lemma attempt_empty:
  "\<not> wrap64 (tries + 1) > maxTries \<Longrightarrow> attempt L DEBUG maxTries i tries [] = None"
  by (simp add: Let_def)


lemma before_Some:
  "before evs r = Some (evs', x) \<longleftrightarrow> (\<exists>evs0. r = Some (evs0, x) \<and> evs' = evs @ evs0)"
  by (cases r) auto


declare attempt.simps [simp del]

lemma attempt_starts_with_get:
  assumes "\<not> wrap64 (tries + 1) > maxTries"
  shows "\<exists>x. attempt L DEBUG maxTries i tries (r # rs) = before [HttpGet i] x"
proof (cases "retryable r")
  case True
  with assms have "attempt L DEBUG maxTries i tries (r # rs) =
      before [HttpGet i] (before (retry_events DEBUG i (wrap64 (tries + 1)))
        (attempt L DEBUG maxTries i (wrap64 (tries + 1)) rs))"
    by (simp add: attempt_retry)
  then show ?thesis by blast
next
  case False
  then obtain data scratch where b: "r = Body data scratch" and p: "bytes_HasPrefix data doctype"
    by (cases r) auto
  have e: "\<And>evs (out :: outcome) (rs' :: response list).
      Some (HttpGet i # evs, out, rs') = before [HttpGet i] (Some (evs, out, rs'))"
    by simp
  show ?thesis
    unfolding b attempt_body [OF assms p]
    by (auto split: prod.splits option.splits intro: e)
qed

subsection \<open>The retry loop as a whole\<close>

lemma attempt_fetches_le:
  assumes "0 \<le> tries" "tries < MaxInt64" "maxTries < MaxInt64"
    and "attempt L DEBUG maxTries i tries rs = Some (evs, out, rs')"
  shows "int (fetches evs) \<le> max 0 (maxTries - tries)"
  using assms
proof (induction rs arbitrary: tries evs)
  case Nil
  then show ?case
    by (cases "wrap64 (tries + 1) > maxTries") (auto simp: attempt_stop attempt_empty)
next
  case (Cons r rs)
  have w: "wrap64 (tries + 1) = tries + 1"
    using Cons.prems by (intro wrap64_id) (simp_all add: MinInt64_def MaxInt64_def)
  show ?case
  proof (cases "tries + 1 > maxTries")
    case True
    with Cons.prems w show ?thesis by (auto simp: attempt_stop)
  next
    case False
    note le = this
    show ?thesis
    proof (cases "retryable r")
      case True
      with le w Cons.prems(4) obtain evs0 where
        r: "attempt L DEBUG maxTries i (tries + 1) rs = Some (evs0, out, rs')"
        and e: "evs = (HttpGet i # retry_events DEBUG i (tries + 1)) @ evs0"
        by (auto simp: attempt_retry before_Some)
      have "int (fetches evs0) \<le> max 0 (maxTries - (tries + 1))"
        using Cons.IH [OF _ _ _ r] Cons.prems le by simp
      with e le show ?thesis by simp
    next
      case False
      then obtain data scratch where b: "r = Body data scratch" and p: "bytes_HasPrefix data doctype"
        by (cases r) auto
      from Cons.prems(4) le w have "fetches evs = 1"
        unfolding b by (auto simp: attempt_body p split: if_splits prod.splits option.splits)
      with le show ?thesis by simp
    qed
  qed
qed

lemma attempt_all_fail:
  assumes "0 \<le> tries" "tries < MaxInt64" "maxTries < MaxInt64"
    and "list_all retryable rs" and "nat (maxTries - tries) \<le> length rs"
  shows "\<exists>evs. attempt L DEBUG maxTries i tries rs =
            Some (evs, if DEBUG then Exited else Next, drop (nat (maxTries - tries)) rs)
          \<and> fetches evs = nat (maxTries - tries) \<and> sent evs = []
          \<and> failed_lines evs = [i] \<and> last evs = LogFailed i"
  using assms
proof (induction rs arbitrary: tries)
  case Nil
  then have "wrap64 (tries + 1) = tries + 1" "maxTries \<le> tries"
    by (simp_all add: wrap64_id MinInt64_def MaxInt64_def)
  then show ?case by (simp add: attempt_stop)
next
  case (Cons r rs)
  have w: "wrap64 (tries + 1) = tries + 1"
    using Cons.prems by (intro wrap64_id) (simp_all add: MinInt64_def MaxInt64_def)
  show ?case
  proof (cases "tries + 1 > maxTries")
    case True
    with w show ?thesis by (simp add: attempt_stop)
  next
    case False
    from Cons.prems False
    have "\<exists>evs. attempt L DEBUG maxTries i (tries + 1) rs =
            Some (evs, if DEBUG then Exited else Next, drop (nat (maxTries - (tries + 1))) rs)
          \<and> fetches evs = nat (maxTries - (tries + 1)) \<and> sent evs = []
          \<and> failed_lines evs = [i] \<and> last evs = LogFailed i"
      by (intro Cons.IH) auto
    then obtain evs0 where
      r: "attempt L DEBUG maxTries i (tries + 1) rs =
            Some (evs0, if DEBUG then Exited else Next, drop (nat (maxTries - (tries + 1))) rs)"
      and f: "fetches evs0 = nat (maxTries - (tries + 1))" "sent evs0 = []"
        "failed_lines evs0 = [i]" "last evs0 = LogFailed i"
      by blast
    from f(3) have ne: "evs0 \<noteq> []" by auto
    have n: "nat (maxTries - tries) = Suc (nat (maxTries - (tries + 1)))"
      using False by simp
    have d: "drop (nat (maxTries - tries)) (r # rs) = drop (nat (maxTries - (tries + 1))) rs"
      unfolding n by simp
    from Cons.prems(4) have "retryable r" by simp
    with False w r f ne show ?thesis
      by (simp add: attempt_retry n)
  qed
qed

lemma attempt_total:
  assumes "0 \<le> tries" "tries < MaxInt64" "maxTries < MaxInt64"
    and "nat (maxTries - tries) \<le> length rs"
  shows "attempt L DEBUG maxTries i tries rs \<noteq> None"
  using assms
proof (induction rs arbitrary: tries)
  case Nil
  then have "wrap64 (tries + 1) = tries + 1" "maxTries \<le> tries"
    by (simp_all add: wrap64_id MinInt64_def MaxInt64_def)
  then show ?case by (simp add: attempt_stop)
next
  case (Cons r rs)
  have w: "wrap64 (tries + 1) = tries + 1"
    using Cons.prems by (intro wrap64_id) (simp_all add: MinInt64_def MaxInt64_def)
  show ?case
  proof (cases "tries + 1 > maxTries")
    case True
    with w show ?thesis by (simp add: attempt_stop)
  next
    case False
    note le = this
    show ?thesis
    proof (cases "retryable r")
      case True
      have "attempt L DEBUG maxTries i (tries + 1) rs \<noteq> None"
        using Cons.prems le by (intro Cons.IH) auto
      with True le w show ?thesis
        by (auto simp: attempt_retry)
    next
      case False
      then obtain data scratch where b: "r = Body data scratch" and p: "bytes_HasPrefix data doctype"
        by (cases r) auto
      from le w show ?thesis
        unfolding b by (simp add: attempt_body p split: prod.splits option.splits)
    qed
  qed
qed

lemma attempt_retries:
  assumes "0 \<le> tries" "tries + int (length rs) \<le> maxTries" "maxTries \<le> MaxInt64"
    and "list_all retryable rs"
  shows "attempt L DEBUG maxTries i tries (rs @ rs2) =
           before (retries DEBUG i tries (length rs))
             (attempt L DEBUG maxTries i (tries + int (length rs)) rs2)"
  using assms
proof (induction rs arbitrary: tries)
  case Nil
  then show ?case by simp
next
  case (Cons r rs)
  have w: "wrap64 (tries + 1) = tries + 1"
    using Cons.prems by (intro wrap64_id) (simp_all add: MinInt64_def MaxInt64_def)
  have "attempt L DEBUG maxTries i (tries + 1) (rs @ rs2) =
          before (retries DEBUG i (tries + 1) (length rs))
            (attempt L DEBUG maxTries i (tries + 1 + int (length rs)) rs2)"
    using Cons.prems by (intro Cons.IH) auto
  moreover have "tries + 1 + int (length rs) = tries + int (length (r # rs))" by simp
  ultimately show ?case
    using Cons.prems w by (simp add: attempt_retry)
qed

lemma attempt_not_Panicked:
  "attempt L DEBUG maxTries i tries rs = Some (evs, out, rs') \<Longrightarrow> out \<noteq> Panicked"
proof (induction rs arbitrary: tries evs)
  case Nil
  then show ?case
    by (cases "wrap64 (tries + 1) > maxTries") (auto simp: attempt_stop attempt_empty split: if_splits)
next
  case (Cons r rs)
  show ?case
  proof (cases "wrap64 (tries + 1) > maxTries")
    case True
    with Cons.prems show ?thesis by (auto simp: attempt_stop split: if_splits)
  next
    case False
    note le = this
    show ?thesis
    proof (cases "retryable r")
      case True
      with le Cons.prems obtain evs0 where
        "attempt L DEBUG maxTries i (wrap64 (tries + 1)) rs = Some (evs0, out, rs')"
        by (auto simp: attempt_retry before_Some)
      then show ?thesis by (rule Cons.IH)
    next
      case False
      then obtain data scratch where b: "r = Body data scratch" and p: "bytes_HasPrefix data doctype"
        by (cases r) auto
      from Cons.prems le show ?thesis
        unfolding b by (auto simp: attempt_body p split: if_splits prod.splits option.splits)
    qed
  qed
qed


subsection \<open>\<^verbatim>\<open>bytes.Index\<close> finds what is there\<close>

lemma HasPrefix_iff: "bytes_HasPrefix s p \<longleftrightarrow> (\<exists>post. s = p @ post)"
  by (induction s p rule: bytes_HasPrefix.induct) auto

lemma index_from_range: "index_from s sep n = - 1 \<or> n \<le> index_from s sep n"
proof (induction s arbitrary: n)
  case Nil
  then show ?case by simp
next
  case (Cons c cs)
  from Cons [of "n + 1"] show ?case by auto
qed

lemma index_from_found:
  "0 \<le> n \<Longrightarrow> 0 \<le> index_from s sep n \<longleftrightarrow> (\<exists>pre post. s = pre @ sep @ post)"
proof (induction s arbitrary: n)
  case Nil
  then show ?case by auto
next
  case (Cons c cs)
  show ?case
  proof (cases "bytes_HasPrefix (c # cs) sep")
    case True
    then obtain post where "c # cs = sep @ post" by (auto simp: HasPrefix_iff)
    then have "c # cs = [] @ sep @ post" by simp
    then have "\<exists>pre post. c # cs = pre @ sep @ post" by blast
    with True Cons.prems show ?thesis by simp
  next
    case False
    have "(\<exists>pre post. c # cs = pre @ sep @ post) \<longleftrightarrow> (\<exists>pre post. cs = pre @ sep @ post)"
    proof
      assume "\<exists>pre post. c # cs = pre @ sep @ post"
      then obtain pre post where e: "c # cs = pre @ sep @ post" by blast
      show "\<exists>pre post. cs = pre @ sep @ post"
      proof (cases pre)
        case Nil
        with e False show ?thesis by (auto simp: HasPrefix_iff)
      next
        case (Cons x xs)
        with e have "cs = xs @ sep @ post" by simp
        then show ?thesis by blast
      qed
    next
      assume "\<exists>pre post. cs = pre @ sep @ post"
      then obtain pre post where "cs = pre @ sep @ post" by blast
      then have "c # cs = (c # pre) @ sep @ post" by simp
      then show "\<exists>pre post. c # cs = pre @ sep @ post" by blast
    qed
    with False Cons.IH [of "n + 1"] Cons.prems show ?thesis by simp
  qed
qed

lemma bytes_Index_found:
  "0 \<le> bytes_Index s sep \<longleftrightarrow> (\<exists>pre post. s = pre @ sep @ post)"
  by (simp add: bytes_Index_def index_from_found)

lemma bytes_Index_window:
  assumes "0 \<le> bytes_Index (take n data) sep"
  shows "0 \<le> bytes_Index (take n (data @ pad)) sep"
proof -
  from assms obtain pre post where "take n data = pre @ sep @ post"
    by (auto simp: bytes_Index_found)
  then have "take n (data @ pad) = pre @ sep @ (post @ take (n - length data) pad)"
    by simp
  then show ?thesis unfolding bytes_Index_found by blast
qed


subsection \<open>The writer and the dispatching loop\<close>


lemma dispatch_loop_upto:
  assumes "MinInt64 \<le> i" "hi < MaxInt64" "nat (hi - i + 1) \<le> n"
  shows "dispatch_loop n i hi = ([i..hi], True)"
  using assms
proof (induction n arbitrary: i)
  case 0
  then show ?case by simp
next
  case (Suc n)
  show ?case
  proof (cases "i \<le> hi")
    case True
    then have w: "wrap64 (i + 1) = i + 1"
      using Suc.prems by (intro wrap64_id) (simp_all add: MinInt64_def MaxInt64_def)
    have "dispatch_loop n (i + 1) hi = ([i + 1..hi], True)"
      using Suc.prems True by (intro Suc.IH) (auto simp: MinInt64_def)
    with True w show ?thesis
      by (simp add: upto_rec1 [of i hi])
  next
    case False
    then show ?thesis by simp
  qed
qed


subsection \<open>More sample pages, evaluated\<close>

lemma empty_prefix: "bytes_HasPrefix page_empty doctype"
  by code_simp

lemma empty_window: "bytes_Index (window300 page_empty []) notFoundText = - 1"
  by code_simp

lemma empty_title: "FindSubmatch regexes_title page_empty = None"
  by code_simp

lemma attempt_page_empty:
  "attempt golib False 1 1 0 (Body page_empty [] # rs) =
     Some ([HttpGet 1, LogError 1 ''title not found'', Send ((new_Torrent golib)\<lparr>Id' := 1\<rparr>)],
           Next, rs)"
  by (simp add: attempt_body empty_prefix empty_window ParseTorrent_unfold empty_title
      wrap64_def)

lemma not_found_prefix: "bytes_HasPrefix page_not_found doctype"
  by code_simp

lemma not_found_marker: "bytes_Index (take 300 page_not_found) notFoundText = 26"
  by code_simp

lemma not_found_length: "length page_not_found = 112"
  by code_simp

lemma empty_length: "length page_empty = 39"
  by code_simp


lemma attempt_page_not_found:
  assumes "\<not> wrap64 (tries + 1) > maxTries"
  shows "attempt golib DEBUG maxTries i tries (Body page_not_found [] # rs) =
           Some ([HttpGet i], Next, rs)"
proof -
  have "0 \<le> bytes_Index (window300 page_not_found []) notFoundText"
    unfolding window300_eq using not_found_marker
    by (intro bytes_Index_window) simp
  then show ?thesis
    by (simp add: attempt_body [OF assms not_found_prefix])
qed

subsection \<open>Claims about the worker\<close>

text \<open>
  C1, evaluated where the code departs from it. The range is \<open>[1, 1]\<close>, strict mode is
  off, and the page fetched for the identifier 1 starts with the document type, has no
  not-found marker and has none of the fields. Extraction fails (\<^verbatim>\<open>title not found\<close>)
  and one error is logged, as the claim says; but \<^verbatim>\<open>runner\<close> then goes on to
  \<^verbatim>\<open>dbChan <- t\<close>, so the record, empty but for its \<^verbatim>\<open>Id\<close>, is sent to the writer, and
  the writer inserts it: one row for the identifier 1 reaches the store.
\<close>

theorem runner_sends_after_error:
  "dispatcher 1 0 1 = ([1], True)
   \<and> runner golib False 1 [1] [Body page_empty []] =
       Some ([HttpGet 1, LogError 1 ''title not found'',
              Send ((new_Torrent golib)\<lparr>Id' := 1\<rparr>), LogGoroutineDone, WgDone], Next)
   \<and> writer sqlite_Exec False [(new_Torrent golib)\<lparr>Id' := 1\<rparr>] [] =
       ([Exec ((new_Torrent golib)\<lparr>Id' := 1\<rparr>), Unlock], Next,
        [(new_Torrent golib)\<lparr>Id' := 1\<rparr>])"
  by (simp add: dispatcher_def wrap64_def attempt_page_empty LOG_INTERVAL_def go_rem_def
      sqlite_Exec_def)

text \<open>
  C2, as it is stated, fails: with the maximum 2 and requests that always fail, the
  worker makes two requests, not three, and leaves the third response unused. The
  counter counts attempts, the first one included.
\<close>

theorem attempt_count_counterexample:
  "attempt golib False 2 1 0 [GetErr, GetErr, GetErr] =
     Some ([HttpGet 1, Sleep 1000000000, HttpGet 1, Sleep 2000000000, LogFailed 1],
           Next, [GetErr])
   \<and> fetches [HttpGet 1, Sleep 1000000000, HttpGet 1, Sleep 2000000000,
               LogFailed 1 :: Time event] = 2"
  by (simp add: attempt.simps Let_def wrap64_def retry_events_def Second_def)

text \<open>
  C2, amended. For a maximum below the largest \<^verbatim>\<open>int\<close>, and for every identifier: the
  worker is done with the identifier after at most that many responses; the number of
  its requests is at most the maximum (and none when the maximum is not positive); and
  when every request fails in a way that is retried, the requests are exactly as many
  as the maximum, after which the identifier is abandoned: nothing is sent to the
  writer, and there is one \<^verbatim>\<open>Failed\<close> log line, the last event. With the maximum 2 that
  is two requests.
\<close>

theorem attempt_count:
  assumes "maxTries < MaxInt64"
  shows "(nat maxTries \<le> length rs \<longrightarrow> attempt L DEBUG maxTries i 0 rs \<noteq> None)
     \<and> (\<forall>evs out rs'. attempt L DEBUG maxTries i 0 rs = Some (evs, out, rs')
          \<longrightarrow> int (fetches evs) \<le> max 0 maxTries)
     \<and> (list_all retryable rs \<and> nat maxTries \<le> length rs \<longrightarrow>
          (\<exists>evs. attempt L DEBUG maxTries i 0 rs =
                   Some (evs, if DEBUG then Exited else Next, drop (nat maxTries) rs)
                 \<and> fetches evs = nat maxTries \<and> sent evs = []
                 \<and> failed_lines evs = [i] \<and> last evs = LogFailed i))"
proof (intro conjI impI allI)
  assume "nat maxTries \<le> length rs"
  with assms show "attempt L DEBUG maxTries i 0 rs \<noteq> None"
    by (intro attempt_total) (simp_all add: MaxInt64_def)
next
  fix evs out rs'
  assume "attempt L DEBUG maxTries i 0 rs = Some (evs, out, rs')"
  with assms attempt_fetches_le [of 0 maxTries L DEBUG i rs evs out rs']
  show "int (fetches evs) \<le> max 0 maxTries"
    by (simp add: MaxInt64_def)
next
  assume "list_all retryable rs \<and> nat maxTries \<le> length rs"
  with assms attempt_all_fail [of 0 maxTries rs L DEBUG i]
  show "\<exists>evs. attempt L DEBUG maxTries i 0 rs =
                Some (evs, if DEBUG then Exited else Next, drop (nat maxTries) rs)
              \<and> fetches evs = nat maxTries \<and> sent evs = []
              \<and> failed_lines evs = [i] \<and> last evs = LogFailed i"
    by (simp add: MaxInt64_def)
qed

theorem attempt_count_witness:
  "(2 :: int) < MaxInt64 \<and> list_all retryable [GetErr, GetErr]
   \<and> nat 2 \<le> length [GetErr, GetErr]
   \<and> (\<exists>evs. attempt golib False 2 1 0 [GetErr, GetErr] = Some (evs, Next, [])
          \<and> fetches evs = 2 \<and> sent evs = [] \<and> failed_lines evs = [1])"
proof -
  have h: "(2 :: int) < MaxInt64" by (simp add: MaxInt64_def)
  from attempt_count [OF h, of "[GetErr, GetErr]" golib False 1] h
  show ?thesis by auto
qed

text \<open>
  C4. When the worker has made a request (its counter was within the maximum) and the
  body read starts with the document type and has the not-found marker within its
  first 300 bytes, the iteration ends there: its only event is the request itself, so
  no record is sent, no error is logged, nothing is slept and no further request is
  made (the responses that follow are left for the next identifiers); and the writer,
  given what the iteration sent, inserts nothing and leaves the store as it is.
\<close>

theorem attempt_not_found:
  assumes "\<not> wrap64 (tries + 1) > maxTries"
    and "bytes_HasPrefix data doctype"
    and "0 \<le> bytes_Index (take 300 data) notFoundText"
  shows "attempt L DEBUG maxTries i tries (Body data scratch # rs) = Some ([HttpGet i], Next, rs)
     \<and> writer exec DEBUG (sent [HttpGet i :: 'tm event]) db = ([Unlock], Next, db)"
proof -
  have "0 \<le> bytes_Index (window300 data scratch) notFoundText"
    unfolding window300_eq using assms(3) by (rule bytes_Index_window)
  then have "attempt L DEBUG maxTries i tries (Body data scratch # rs) =
      Some ([HttpGet i], Next, rs)"
    by (simp only: attempt_body [OF assms(1,2)] if_True)
  then show ?thesis by simp
qed

theorem attempt_not_found_witness:
  "\<not> wrap64 (0 + 1) > 1 \<and> bytes_HasPrefix page_not_found doctype
   \<and> 0 \<le> bytes_Index (take 300 page_not_found) notFoundText
   \<and> attempt golib False 1 7 0 [Body page_not_found []] = Some ([HttpGet 7], Next, [])"
proof -
  have h1: "\<not> wrap64 (0 + 1) > 1" by (simp add: wrap64_def)
  have h3: "0 \<le> bytes_Index (take 300 page_not_found) notFoundText"
    by (simp add: not_found_marker)
  from attempt_not_found [OF h1 not_found_prefix h3, of golib False 7 "[]" "[]"] h1 h3
    not_found_prefix
  show ?thesis by simp
qed

text \<open>
  C7, as it is stated, fails for attempts beyond the 9223372036th: the duration
  \<^verbatim>\<open>time.Duration(tries) * time.Second\<close> is a 64-bit count of nanoseconds and wraps
  around. With the maximum 9223372037 and 9223372037 failed requests in a row, the run
  of the worker from the counter 0 is the 9223372036 retries, which leave the counter
  at 9223372036, and then the attempt number 9223372037: it calls \<^verbatim>\<open>time.Sleep\<close> with a
  negative duration, which returns at once.
\<close>

theorem attempt_backoff_counterexample:
  "attempt golib False 9223372037 1 0 (replicate 9223372036 GetErr @ [GetErr]) =
     Some (retries False 1 0 9223372036
             @ [HttpGet 1, Sleep (- 9223372036709551616), LogFailed 1], Next, [])
   \<and> attempt golib False 9223372037 1 9223372036 [GetErr] =
     Some ([HttpGet 1, Sleep (- 9223372036709551616), LogFailed 1], Next, [])
   \<and> - 9223372036709551616 \<noteq> 9223372037 * Second"
proof -
  have a: "attempt golib False 9223372037 1 0 (replicate 9223372036 GetErr @ [GetErr]) =
     before (retries False 1 0 9223372036)
       (attempt golib False 9223372037 1 9223372036 [GetErr])"
    using attempt_retries [of 0 "replicate 9223372036 GetErr" 9223372037 golib False 1 "[GetErr]"]
    by (simp add: MaxInt64_def list_all_length)
  have b: "attempt golib False 9223372037 1 9223372036 [GetErr] =
     Some ([HttpGet 1, Sleep (- 9223372036709551616), LogFailed 1], Next, [])"
    by (simp add: attempt.simps Let_def wrap64_def retry_events_def Second_def)
  show ?thesis unfolding a b by (simp add: Second_def)
qed


text \<open>
  C7, amended. For every failure that is retried (connection error, unreadable body,
  wrong document-type prefix) on attempt \<open>n\<close>, for \<open>n\<close> up to 9223372036: after the
  request (and, in strict mode, the retry log line) the worker calls \<^verbatim>\<open>time.Sleep\<close>
  with exactly \<open>n\<close> seconds, and then goes back to \<^verbatim>\<open>start\<close> with the counter \<open>n\<close>;
  there it makes the next request when \<open>n\<close> is below the maximum, and abandons the
  identifier when \<open>n\<close> is the maximum. Here \<open>n\<close> is \<open>tries + 1\<close>, the counter being
  \<open>tries\<close> when the attempt starts.
\<close>

theorem attempt_backoff:
  assumes "retryable r" and "0 \<le> tries" and "tries + 1 \<le> maxTries"
    and "tries + 1 \<le> 9223372036"
  shows "attempt L DEBUG maxTries i tries (r # rs) =
           before ([HttpGet i] @ (if DEBUG then [LogRetry i (tries + 1)] else [])
                    @ [Sleep ((tries + 1) * Second)])
             (attempt L DEBUG maxTries i (tries + 1) rs)
     \<and> (\<forall>evs out rs'. attempt L DEBUG maxTries i (tries + 1) rs = Some (evs, out, rs') \<longrightarrow>
          attempt L DEBUG maxTries i tries (r # rs) =
            Some ([HttpGet i] @ (if DEBUG then [LogRetry i (tries + 1)] else [])
                    @ [Sleep ((tries + 1) * Second)] @ evs, out, rs'))
     \<and> (tries + 1 < maxTries \<longrightarrow>
          (\<forall>r2 rs2. \<exists>x. attempt L DEBUG maxTries i (tries + 1) (r2 # rs2) =
                           before [HttpGet i] x))
     \<and> (tries + 1 = maxTries \<longrightarrow>
          attempt L DEBUG maxTries i tries (r # rs) =
            Some ([HttpGet i] @ (if DEBUG then [LogRetry i (tries + 1)] else [])
                    @ [Sleep ((tries + 1) * Second), LogFailed i],
                  if DEBUG then Exited else Next, rs))"
proof -
  have w: "wrap64 (tries + 1) = tries + 1"
    using assms by (intro wrap64_id) (simp_all add: MinInt64_def MaxInt64_def)
  have w2: "wrap64 (tries + 1 + 1) = tries + 1 + 1"
    using assms by (intro wrap64_id) (simp_all add: MinInt64_def MaxInt64_def)
  have s: "wrap64 ((tries + 1) * Second) = (tries + 1) * Second"
    using assms by (intro wrap64_id) (simp_all add: MinInt64_def MaxInt64_def Second_def)
  have eq: "attempt L DEBUG maxTries i tries (r # rs) =
           before ([HttpGet i] @ (if DEBUG then [LogRetry i (tries + 1)] else [])
                    @ [Sleep ((tries + 1) * Second)])
             (attempt L DEBUG maxTries i (tries + 1) rs)"
    using assms w s by (simp add: attempt_retry retry_events_def)
  have some: "\<forall>evs out rs'. attempt L DEBUG maxTries i (tries + 1) rs = Some (evs, out, rs') \<longrightarrow>
          attempt L DEBUG maxTries i tries (r # rs) =
            Some ([HttpGet i] @ (if DEBUG then [LogRetry i (tries + 1)] else [])
                    @ [Sleep ((tries + 1) * Second)] @ evs, out, rs')"
    unfolding eq by simp
  have again: "tries + 1 < maxTries \<longrightarrow>
          (\<forall>r2 rs2. \<exists>x. attempt L DEBUG maxTries i (tries + 1) (r2 # rs2) =
                           before [HttpGet i] x)"
  proof (intro impI allI)
    fix r2 rs2
    assume "tries + 1 < maxTries"
    with w2 have "\<not> wrap64 (tries + 1 + 1) > maxTries" by simp
    then show "\<exists>x. attempt L DEBUG maxTries i (tries + 1) (r2 # rs2) = before [HttpGet i] x"
      by (rule attempt_starts_with_get)
  qed
  have stop: "tries + 1 = maxTries \<longrightarrow>
          attempt L DEBUG maxTries i tries (r # rs) =
            Some ([HttpGet i] @ (if DEBUG then [LogRetry i (tries + 1)] else [])
                    @ [Sleep ((tries + 1) * Second), LogFailed i],
                  if DEBUG then Exited else Next, rs)"
  proof
    assume m: "tries + 1 = maxTries"
    with w2 have "wrap64 (tries + 1 + 1) > maxTries" by simp
    then have "attempt L DEBUG maxTries i (tries + 1) rs =
        Some ([LogFailed i], if DEBUG then Exited else Next, rs)"
      by (rule attempt_stop)
    then show "attempt L DEBUG maxTries i tries (r # rs) =
            Some ([HttpGet i] @ (if DEBUG then [LogRetry i (tries + 1)] else [])
                    @ [Sleep ((tries + 1) * Second), LogFailed i],
                  if DEBUG then Exited else Next, rs)"
      unfolding eq by simp
  qed
  from eq some again stop show ?thesis by blast
qed

theorem attempt_backoff_witness:
  "retryable GetErr \<and> (0 :: int) \<le> 0 \<and> (0 :: int) + 1 \<le> 3 \<and> (0 :: int) + 1 \<le> 9223372036
   \<and> attempt golib False 3 1 1 [GetErr, Body page_not_found []] =
       Some ([HttpGet 1, Sleep 2000000000, HttpGet 1], Next, [])
   \<and> attempt golib False 3 1 0 [GetErr, GetErr, Body page_not_found []] =
       Some ([HttpGet 1, Sleep 1000000000, HttpGet 1, Sleep 2000000000, HttpGet 1], Next, [])"
proof -
  have r: "attempt golib False 3 1 1 [GetErr, Body page_not_found []] =
       Some ([HttpGet 1, Sleep 2000000000, HttpGet 1], Next, [])"
    by (simp add: attempt_retry attempt_page_not_found wrap64_def retry_events_def Second_def)
  from attempt_backoff [of GetErr 0 3 golib False 1 "[GetErr, Body page_not_found []]"] r
  show ?thesis by (simp add: Second_def)
qed

text \<open>
  C9, as it is stated, fails: a body shorter than 300 bytes that starts with the
  document type does not make \<^verbatim>\<open>body[:300]\<close> panic, and the identifier does reach
  extraction (first page, 39 bytes) or the skip path (second page, 112 bytes).
\<close>

theorem short_body_counterexample:
  "length page_empty < 300 \<and> bytes_HasPrefix page_empty doctype
   \<and> attempt golib False 1 1 0 [Body page_empty []] =
       Some ([HttpGet 1, LogError 1 ''title not found'',
              Send ((new_Torrent golib)\<lparr>Id' := 1\<rparr>)], Next, [])
   \<and> length page_not_found < 300 \<and> bytes_HasPrefix page_not_found doctype
   \<and> attempt golib False 1 1 0 [Body page_not_found []] = Some ([HttpGet 1], Next, [])"
  by (simp add: empty_length empty_prefix attempt_page_empty not_found_length
      not_found_prefix attempt_page_not_found wrap64_def)

text \<open>
  C9, amended. The not-found check takes \<^verbatim>\<open>body[:300]\<close> without a test. The bound of
  that expression is the capacity of the slice, not its length: it panics exactly when
  the capacity is below 300. The slice that \<^verbatim>\<open>ioutil.ReadAll\<close> returns has a capacity of
  at least 512, so the expression is in range for every body, of whatever length: its
  value is the first 300 bytes of the body followed by what the buffer holds behind
  it, and no iteration of the worker ends in a panic.
\<close>

theorem not_found_check_in_range:
  "(slice_to s 300 = None \<longleftrightarrow> cap s < 300)
   \<and> 512 \<le> cap (ioutil_ReadAll data scratch)
   \<and> slice_to (ioutil_ReadAll data scratch) 300 =
       Some (take 300
              (data @ scratch @ replicate (512 - (length data + length scratch)) (CHR 0x00)))
   \<and> (attempt L DEBUG maxTries i tries rs = Some (evs, out, rs') \<longrightarrow> out \<noteq> Panicked)"
  using attempt_not_Panicked [of L DEBUG maxTries i tries rs evs out rs']
  by (simp add: slice_to_None cap_ReadAll slice_to_ReadAll window300_eq)

theorem not_found_check_in_range_witness:
  "attempt golib False 1 1 0 [Body page_empty []] =
     Some ([HttpGet 1, LogError 1 ''title not found'',
            Send ((new_Torrent golib)\<lparr>Id' := 1\<rparr>)], Next, [])
   \<and> Next \<noteq> Panicked
   \<and> 512 \<le> cap (ioutil_ReadAll page_empty [])"
  using not_found_check_in_range [of "ioutil_ReadAll page_empty []" page_empty "[]"
      golib False 1 1 0 "[Body page_empty []]"
      "[HttpGet 1, LogError 1 ''title not found'', Send ((new_Torrent golib)\<lparr>Id' := 1\<rparr>)]"
      Next "[]"]
  by (simp add: attempt_page_empty)

subsection \<open>Claims about the writer and the dispatcher\<close>



text \<open>
  C6, as it is stated, fails at the upper end of \<^verbatim>\<open>int\<close>: with the start offset
  \<open>2^63 - 2\<close> and the count 1 the range is the one integer \<open>2^63 - 1\<close>, the test
  \<^verbatim>\<open>i <= latest+startOffset\<close> is true of every \<^verbatim>\<open>int\<close>, and \<^verbatim>\<open>i++\<close> wraps around: after
  three sends two identifiers outside the range have been sent and the channel is not
  closed.
\<close>

theorem dispatcher_counterexample:
  "dispatcher 3 9223372036854775806 1 =
     ([9223372036854775807, - 9223372036854775808, - 9223372036854775807], False)"
  by (simp add: dispatcher_def wrap64_def eval_nat_numeral)

text \<open>
  C6, amended. Given a start offset and a count such that \<open>start + 1\<close> and
  \<open>start + count\<close> are values of \<^verbatim>\<open>int\<close> and \<open>start + count\<close> is not the largest one, the
  dispatching loop, once it has been let run for \<open>count\<close> sends, has sent each integer
  of \<open>[start + 1, start + count]\<close> exactly once, in strictly increasing order, and has
  then closed the channel.
\<close>

theorem dispatcher_range:
  assumes "MinInt64 \<le> 1 + startOffset" and "1 + startOffset \<le> MaxInt64"
    and "MinInt64 \<le> latest + startOffset" and "latest + startOffset < MaxInt64"
    and "nat latest \<le> n"
  shows "dispatcher n startOffset latest = ([startOffset + 1..startOffset + latest], True)
     \<and> distinct (fst (dispatcher n startOffset latest))
     \<and> sorted_wrt (<) (fst (dispatcher n startOffset latest))
     \<and> set (fst (dispatcher n startOffset latest)) = {startOffset + 1..startOffset + latest}"
proof -
  have w: "wrap64 (1 + startOffset) = 1 + startOffset"
    "wrap64 (latest + startOffset) = latest + startOffset"
    using assms by (simp_all add: wrap64_id)
  have "dispatch_loop n (1 + startOffset) (latest + startOffset) =
          ([1 + startOffset..latest + startOffset], True)"
    using assms by (intro dispatch_loop_upto) simp_all
  then have "dispatcher n startOffset latest =
      ([startOffset + 1..startOffset + latest], True)"
    by (simp add: dispatcher_def w add.commute)
  then show ?thesis
    by (simp add: sorted_wrt_upto)
qed

theorem dispatcher_range_witness:
  "MinInt64 \<le> 1 + 10 \<and> (1 :: int) + 10 \<le> MaxInt64 \<and> MinInt64 \<le> 3 + 10
   \<and> (3 :: int) + 10 < MaxInt64 \<and> nat 3 \<le> 5
   \<and> dispatcher 5 10 3 = ([11, 12, 13], True)"
proof -
  have h: "MinInt64 \<le> 1 + 10" "(1 :: int) + 10 \<le> MaxInt64" "MinInt64 \<le> 3 + 10"
    "(3 :: int) + 10 < MaxInt64" "nat 3 \<le> 5"
    by (simp_all add: MinInt64_def MaxInt64_def)
  have "[10 + 1..10 + 3] = [11, 12, (13 :: int)]"
    by (simp add: upto_rec1)
  with dispatcher_range [OF h] h show ?thesis by simp
qed

end
